theory Spec2Isabelle
  imports Main
begin

section \<open>Data model (apps/server/lib/github.ts)\<close>

text \<open>
  The records keep the fields that the renderers and handlers of
  \<^verbatim>\<open>apps/server/app.ts\<close> read. Field names are the source's, prefixed by
  the record they belong to (\<open>c_\<close> for \<^verbatim>\<open>PullRequestReviewComment\<close>,
  \<open>r_\<close> for \<^verbatim>\<open>PullRequestReview\<close>, \<open>i_\<close> for \<^verbatim>\<open>Issue\<close>,
  \<open>ic_\<close> for \<^verbatim>\<open>IssueComment\<close>). A JavaScript \<^verbatim>\<open>number\<close> holding an
  identifier or a line number is an \<open>int\<close>; an optional or nullable field is an
  \<open>option\<close>. Strings are byte strings (UTF-8).
\<close>

datatype Side = LEFT | RIGHT

datatype ReviewState = APPROVED | CHANGES_REQUESTED | COMMENTED | DISMISSED | PENDING

record SimpleUser =
  login :: string

record PullRequestReviewComment =
  c_pull_request_review_id :: "int option"
  c_id :: int
  c_path :: string
  c_in_reply_to_id :: "int option"
  c_user :: SimpleUser
  c_body :: string
  c_created_at :: string
  c_html_url :: string
  c_start_line :: "int option"
  c_line :: "int option"
  c_side :: "Side option"

record PullRequestReview =
  r_id :: int
  r_user :: SimpleUser
  r_body :: "string option"
  r_state :: ReviewState
  r_html_url :: string
  r_submitted_at :: string

record Issue =
  i_number :: int
  i_state :: string
  i_title :: string
  i_body :: "string option"
  i_user :: SimpleUser
  i_created_at :: string
  i_html_url :: string

record IssueComment =
  ic_id :: int
  ic_user :: SimpleUser
  ic_created_at :: string
  ic_body :: string
  ic_html_url :: string

section \<open>The JavaScript runtime, as far as the code uses it\<close>

text \<open>Truthiness of an optional number (absent, null and 0 are falsy) and of a
  nullable string (null and the empty string are falsy).\<close>

definition truthyNum :: "int option \<Rightarrow> bool" where
  "truthyNum v = (case v of None \<Rightarrow> False | Some n \<Rightarrow> n \<noteq> 0)"

definition truthyStr :: "string option \<Rightarrow> bool" where
  "truthyStr v = (case v of None \<Rightarrow> False | Some s \<Rightarrow> s \<noteq> [])"

text \<open>
  Numbers. Every number the code prints or compares is an integer-valued
  \<^verbatim>\<open>Number\<close>, a double; it is an \<open>int\<close> here, and an \<open>int\<close> of magnitude \<open>2^1024\<close> or
  more stands for an infinity. \<open>toNumber\<close> is the conversion of a mathematical
  integer to a \<^verbatim>\<open>Number\<close>: below \<open>2^53\<close> it changes nothing, above it rounds to 53
  significant bits, ties to even, and overflows to infinity.
\<close>

definition digitChar :: "nat \<Rightarrow> char" where
  "digitChar d = char_of (48 + d)"

function natToString :: "nat \<Rightarrow> string" where
  "natToString n =
     (if n < 10 then [digitChar n] else natToString (n div 10) @ [digitChar (n mod 10)])"
  by pat_completeness auto
termination
  by (relation "measure (\<lambda>n. n)") auto

function bitLength :: "nat \<Rightarrow> nat" where
  "bitLength n = (if n = 0 then 0 else Suc (bitLength (n div 2)))"
  by pat_completeness auto
termination
  by (relation "measure (\<lambda>n. n)") auto

definition infinity :: nat where
  "infinity = 2 ^ 1024"

definition roundNat :: "nat \<Rightarrow> nat" where
  "roundNat n =
     (if n < 2 ^ 53 then n
      else
        (let e = bitLength n - 53;
             q = n div 2 ^ e;
             r = n mod 2 ^ e;
             half = 2 ^ (e - 1);
             q' = (if r > half \<or> (r = half \<and> odd q) then q + 1 else q);
             v = q' * 2 ^ e
         in if v \<ge> infinity then infinity else v))"

definition toNumber :: "int \<Rightarrow> int" where
  "toNumber i = (if i < 0 then - int (roundNat (nat (- i))) else int (roundNat (nat i)))"

text \<open>
  The text of a number in a template literal (\<^verbatim>\<open>Number::toString\<close>). An integer
  below \<open>2^53\<close> is printed in decimal. Above, the digits printed are those of the
  integer with the fewest significant digits that converts to the same
  \<^verbatim>\<open>Number\<close> (the closest one if there are several), all of them below \<open>10^21\<close>
  and in exponent notation from there on. \<open>shortestAt x p\<close> looks for such an integer
  among the multiples of \<open>10^p\<close>.
\<close>

definition shortestAt :: "nat \<Rightarrow> nat \<Rightarrow> nat option" where
  "shortestAt x p =
     (let lo = (x div 10 ^ p) * 10 ^ p;
          hi = lo + 10 ^ p;
          loOk = (lo > 0 \<and> roundNat lo = x);
          hiOk = (roundNat hi = x)
      in if loOk \<and> hiOk then
           (if x - lo < hi - x then Some lo
            else if hi - x < x - lo then Some hi
            else if even (x div 10 ^ p) then Some lo else Some hi)
         else if loOk then Some lo
         else if hiOk then Some hi
         else None)"

definition shortestDecimal :: "nat \<Rightarrow> nat" where
  "shortestDecimal x =
     (case List.map_filter (shortestAt x) (rev [0..<Suc (length (natToString x))]) of
        [] \<Rightarrow> x
      | y # _ \<Rightarrow> y)"

definition exponential :: "string \<Rightarrow> string" where
  "exponential digits =
     (let s = rev (dropWhile (\<lambda>ch. ch = CHR ''0'') (rev digits));
          e = ''e+'' @ natToString (length digits - 1)
      in case s of
           [] \<Rightarrow> digits
         | [d] \<Rightarrow> d # e
         | d # ds \<Rightarrow> d # ''.'' @ ds @ e)"

definition numberToString :: "nat \<Rightarrow> string" where
  "numberToString x =
     (if x < 2 ^ 53 then natToString x
      else if x \<ge> infinity then ''Infinity''
      else if x < 10 ^ 21 then natToString (shortestDecimal x)
      else exponential (natToString (shortestDecimal x)))"

definition intToString :: "int \<Rightarrow> string" where
  "intToString i =
     (let x = toNumber i
      in if x < 0 then ''-'' @ numberToString (nat (- x)) else numberToString (nat x))"

definition sideToString :: "Side \<Rightarrow> string" where
  "sideToString s = (case s of LEFT \<Rightarrow> ''LEFT'' | RIGHT \<Rightarrow> ''RIGHT'')"

definition stateToString :: "ReviewState \<Rightarrow> string" where
  "stateToString s =
     (case s of APPROVED \<Rightarrow> ''APPROVED'' | CHANGES_REQUESTED \<Rightarrow> ''CHANGES_REQUESTED''
      | COMMENTED \<Rightarrow> ''COMMENTED'' | DISMISSED \<Rightarrow> ''DISMISSED'' | PENDING \<Rightarrow> ''PENDING'')"

text \<open>\<^verbatim>\<open>String.prototype.split('\n')\<close>, \<^verbatim>\<open>Array.prototype.join\<close> and
  \<^verbatim>\<open>String.prototype.repeat\<close>.\<close>

fun splitNewline :: "string \<Rightarrow> string list" where
  "splitNewline [] = [[]]"
| "splitNewline (ch # rest) =
     (if ch = CHR ''\<newline>'' then [] # splitNewline rest
      else (case splitNewline rest of
              [] \<Rightarrow> [[ch]]
            | piece # pieces \<Rightarrow> (ch # piece) # pieces))"

fun join :: "string \<Rightarrow> string list \<Rightarrow> string" where
  "join sep [] = []"
| "join sep [piece] = piece"
| "join sep (piece # others) = piece @ sep @ join sep others"

definition repeat :: "string \<Rightarrow> nat \<Rightarrow> string" where
  "repeat s n = concat (replicate n s)"

text \<open>
  \<^verbatim>\<open>parseInt(s, 10)\<close>: the leading white space of the language is trimmed (the
  characters \<^verbatim>\<open>TAB\<close>, \<^verbatim>\<open>VT\<close>, \<^verbatim>\<open>FF\<close>, \<^verbatim>\<open>ZWNBSP\<close>, the space separators of
  Unicode and the line terminators, here in UTF-8), one sign is read, then the
  longest run of decimal digits. No digit gives NaN, which is \<open>None\<close>; otherwise
  the result is the \<^verbatim>\<open>Number\<close> of the signed integer the digits denote, all digits
  taken into account. Minus zero is 0.
\<close>

definition whiteSpace :: "string list" where
  "whiteSpace =
     [[CHR 0x09], [CHR 0x0A], [CHR 0x0B], [CHR 0x0C], [CHR 0x0D], [CHR 0x20],
      [CHR 0xC2, CHR 0xA0], [CHR 0xE1, CHR 0x9A, CHR 0x80],
      [CHR 0xE2, CHR 0x80, CHR 0x80], [CHR 0xE2, CHR 0x80, CHR 0x81],
      [CHR 0xE2, CHR 0x80, CHR 0x82], [CHR 0xE2, CHR 0x80, CHR 0x83],
      [CHR 0xE2, CHR 0x80, CHR 0x84], [CHR 0xE2, CHR 0x80, CHR 0x85],
      [CHR 0xE2, CHR 0x80, CHR 0x86], [CHR 0xE2, CHR 0x80, CHR 0x87],
      [CHR 0xE2, CHR 0x80, CHR 0x88], [CHR 0xE2, CHR 0x80, CHR 0x89],
      [CHR 0xE2, CHR 0x80, CHR 0x8A], [CHR 0xE2, CHR 0x80, CHR 0xA8],
      [CHR 0xE2, CHR 0x80, CHR 0xA9], [CHR 0xE2, CHR 0x80, CHR 0xAF],
      [CHR 0xE2, CHR 0x81, CHR 0x9F], [CHR 0xE3, CHR 0x80, CHR 0x80],
      [CHR 0xEF, CHR 0xBB, CHR 0xBF]]"

definition leadingWhiteSpace :: "string \<Rightarrow> nat" where
  "leadingWhiteSpace s =
     (case filter (\<lambda>w. take (length w) s = w) whiteSpace of
        [] \<Rightarrow> 0
      | w # _ \<Rightarrow> length w)"

function trimStart :: "string \<Rightarrow> string" where
  "trimStart s =
     (if s = [] \<or> leadingWhiteSpace s = 0 then s
      else trimStart (drop (leadingWhiteSpace s) s))"
  by pat_completeness auto
termination
  by (relation "measure length") auto

definition isDigit :: "char \<Rightarrow> bool" where
  "isDigit ch = ((48::nat) \<le> of_char ch \<and> of_char ch \<le> (57::nat))"

definition digitsValue :: "string \<Rightarrow> nat" where
  "digitsValue ds = foldl (\<lambda>acc ch. 10 * acc + (of_char ch - 48)) 0 ds"

definition parseInt :: "string \<Rightarrow> int option" where
  "parseInt s =
     (let s1 = trimStart s;
          negative = (case s1 of [] \<Rightarrow> False | ch # _ \<Rightarrow> ch = CHR ''-'');
          s2 = (case s1 of [] \<Rightarrow> []
                | ch # rest \<Rightarrow> if ch = CHR ''-'' \<or> ch = CHR ''+'' then rest else s1);
          ds = takeWhile isDigit s2
      in if ds = [] then None
         else Some (toNumber (if negative then - int (digitsValue ds)
                              else int (digitsValue ds))))"

text \<open>
  The collaborators that are not code of the repository: the \<^verbatim>\<open>tiktoken\<close>
  encoder, each of whose operations may throw, and the locale-dependent
  \<^verbatim>\<open>toLocaleString\<close> of numbers and of dates.
\<close>

datatype exn = Error string

record Encoder =
  encode :: "string \<Rightarrow> exn + nat list"
  free :: "exn + unit"

record Runtime =
  encoding_for_model :: "string \<Rightarrow> exn + Encoder"
  numberToLocaleString :: "nat \<Rightarrow> string"
  dateToLocaleString :: "string \<Rightarrow> string"

section \<open>Token counting (app.ts, countTokens)\<close>

text \<open>The body of the \<^verbatim>\<open>try\<close> block returns the number of tokens; a throw of any
  of its three calls reaches the \<^verbatim>\<open>catch\<close>, which returns 0.\<close>

definition countTokens :: "Runtime \<Rightarrow> string \<Rightarrow> nat" where
  "countTokens rt text =
     (case encoding_for_model rt ''gpt-4'' of
        Inl err \<Rightarrow> 0
      | Inr encoder \<Rightarrow>
          (case encode encoder text of
             Inl err \<Rightarrow> 0
           | Inr tokens \<Rightarrow>
               (let count = length tokens
                in case free encoder of Inl err \<Rightarrow> 0 | Inr u \<Rightarrow> count)))"

section \<open>The flat renderer (app.ts, formatCommentsAsMarkdown)\<close>

text \<open>The line-number lines of one comment, written three times in the source
  (flat renderer, threaded renderer with an indent, flat branch of the
  review renderer).\<close>

definition lineInfo :: "string \<Rightarrow> PullRequestReviewComment \<Rightarrow> string" where
  "lineInfo indent comment =
     (let side = (case c_side comment of None \<Rightarrow> ''RIGHT'' | Some s \<Rightarrow> sideToString s)
      in if truthyNum (c_start_line comment) \<and> truthyNum (c_line comment) then
           (case (c_start_line comment, c_line comment) of
              (Some start_line, Some line) \<Rightarrow>
                indent @ ''**Lines:** '' @ intToString start_line @ ''-''
                  @ intToString line @ '' ('' @ side @ '' side)\<newline>''
            | _ \<Rightarrow> [])
         else if truthyNum (c_line comment) then
           (case c_line comment of
              Some line \<Rightarrow>
                indent @ ''**Line:** '' @ intToString line
                  @ '' ('' @ side @ '' side)\<newline>''
            | None \<Rightarrow> [])
         else [])"

definition flatSection :: "Runtime \<Rightarrow> nat \<Rightarrow> nat \<Rightarrow> PullRequestReviewComment \<Rightarrow> string" where
  "flatSection rt count index comment =
     ''## Comment '' @ natToString (index + 1) @ ''\<newline>\<newline>''
     @ ''**Author:** @'' @ login (c_user comment) @ ''\<newline>''
     @ ''**Created:** '' @ dateToLocaleString rt (c_created_at comment) @ ''\<newline>''
     @ ''**File:** `'' @ c_path comment @ ''`\<newline>''
     @ lineInfo [] comment
     @ ''**[View on GitHub]('' @ c_html_url comment @ '')**\<newline>\<newline>''
     @ ''### Comment\<newline>\<newline>''
     @ c_body comment @ ''\<newline>\<newline>''
     @ (if Suc index < count then ''---\<newline>\<newline>'' else [])"

definition formatCommentsAsMarkdown ::
  "Runtime \<Rightarrow> string \<Rightarrow> string \<Rightarrow> int \<Rightarrow> PullRequestReviewComment list \<Rightarrow> string" where
  "formatCommentsAsMarkdown rt owner repo pullRequestId comments =
     (let totalTokens = foldl (\<lambda>sum comment. sum + countTokens rt (c_body comment)) 0 comments;
          markdown = ''# Pull Request #'' @ intToString pullRequestId @ '' Comments\<newline>\<newline>''
            @ ''**Repository:** '' @ owner @ ''/'' @ repo @ ''\<newline>''
            @ ''**Total Comments:** '' @ natToString (length comments) @ ''\<newline>''
            @ ''**Total Tokens:** '' @ numberToLocaleString rt totalTokens @ ''\<newline>\<newline>''
            @ ''---\<newline>\<newline>''
      in if length comments = 0 then
           markdown @ ''*No comments found for this pull request.*\<newline>''
         else
           foldl (\<lambda>md (index, comment). md @ flatSection rt (length comments) index comment)
             markdown (enumerate 0 comments))"

section \<open>The review renderer (app.ts, formatCommentsWithReviews)\<close>

record FormattingOptions =
  includeReviews :: bool
  showThreading :: bool
  resolvedFilter :: "string option"

text \<open>
  The recursion of \<^verbatim>\<open>formatCommentWithReplies\<close> has no bound in the source. Here
  it carries fuel, the number of nested calls still allowed: \<open>None\<close> means that the
  fuel ran out, so a call that never returns in the source is \<open>None\<close> for every
  fuel. A string under construction is therefore a \<open>string option\<close>.
\<close>

definition appendOpt :: "string option \<Rightarrow> string option \<Rightarrow> string option" where
  "appendOpt a b =
     (case a of None \<Rightarrow> None
      | Some x \<Rightarrow> (case b of None \<Rightarrow> None | Some y \<Rightarrow> Some (x @ y)))"

text \<open>The arrow of the reply marker, U+21B3, in UTF-8.\<close>

definition replyArrow :: string where
  "replyArrow = [CHR 0xE2, CHR 0x86, CHR 0xB3]"

definition getReplies :: "PullRequestReviewComment list \<Rightarrow> int \<Rightarrow> PullRequestReviewComment list" where
  "getReplies comments commentId = filter (\<lambda>c. c_in_reply_to_id c = Some commentId) comments"

text \<open>What \<^verbatim>\<open>formatCommentWithReplies\<close> writes for the comment itself, before the
  loop over its replies.\<close>

definition commentBlock :: "Runtime \<Rightarrow> PullRequestReviewComment \<Rightarrow> nat \<Rightarrow> string" where
  "commentBlock rt comment depth =
     (let indent = repeat ''  '' depth
      in (if depth = 0 then ''## Comment '' @ intToString (c_id comment) @ ''\<newline>\<newline>''
          else indent @ ''**'' @ replyArrow @ '' Reply**\<newline>\<newline>'')
         @ indent @ ''**Author:** @'' @ login (c_user comment) @ ''\<newline>''
         @ indent @ ''**Created:** '' @ dateToLocaleString rt (c_created_at comment) @ ''\<newline>''
         @ indent @ ''**File:** `'' @ c_path comment @ ''`\<newline>''
         @ lineInfo indent comment
         @ indent @ ''**[View on GitHub]('' @ c_html_url comment @ '')**\<newline>\<newline>''
         @ indent @ ''> '' @ join (''\<newline>'' @ indent @ ''> '') (splitNewline (c_body comment))
         @ ''\<newline>\<newline>'')"

fun formatCommentWithReplies ::
  "Runtime \<Rightarrow> PullRequestReviewComment list \<Rightarrow> nat \<Rightarrow> PullRequestReviewComment \<Rightarrow> nat
     \<Rightarrow> string option" where
  "formatCommentWithReplies rt comments 0 comment depth = None"
| "formatCommentWithReplies rt comments (Suc fuel) comment depth =
     foldl (\<lambda>output reply.
              appendOpt output (formatCommentWithReplies rt comments fuel reply (depth + 1)))
       (Some (commentBlock rt comment depth))
       (getReplies comments (c_id comment))"

text \<open>\<^verbatim>\<open>rootComments\<close>: the comments pushed by the first loop, those whose
  \<^verbatim>\<open>in_reply_to_id\<close> is falsy. The \<^verbatim>\<open>commentMap\<close> filled by the same loop and
  the \<^verbatim>\<open>reviewMap\<close> of the grouping branch are never read and are left out.\<close>

definition rootComments :: "PullRequestReviewComment list \<Rightarrow> PullRequestReviewComment list" where
  "rootComments comments = filter (\<lambda>comment. \<not> truthyNum (c_in_reply_to_id comment)) comments"

text \<open>\<^verbatim>\<open>reviewGroups\<close>, a \<^verbatim>\<open>Map\<close> from a review id or null to the root comments
  pushed under it, and its read \<^verbatim>\<open>reviewGroups.get(k) || []\<close>.\<close>

type_synonym ReviewGroups = "int option \<rightharpoonup> PullRequestReviewComment list"

definition groupPush :: "ReviewGroups \<Rightarrow> PullRequestReviewComment \<Rightarrow> ReviewGroups" where
  "groupPush groups comment =
     (let reviewId = c_pull_request_review_id comment;
          groups1 = (if groups reviewId = None then groups(reviewId \<mapsto> []) else groups)
      in groups1(reviewId \<mapsto> (case groups1 reviewId of None \<Rightarrow> [] | Some cs \<Rightarrow> cs) @ [comment]))"

definition reviewGroups :: "PullRequestReviewComment list \<Rightarrow> ReviewGroups" where
  "reviewGroups roots = foldl groupPush Map.empty roots"

definition groupGet :: "ReviewGroups \<Rightarrow> int option \<Rightarrow> PullRequestReviewComment list" where
  "groupGet groups k = (case groups k of None \<Rightarrow> [] | Some cs \<Rightarrow> cs)"

text \<open>The head of a review section, written twice in the source; the heading of
  the review's body is \<^verbatim>\<open>### Review Comment\<close> in the threaded branch and
  \<^verbatim>\<open>### Comment\<close> in the flat one.\<close>

definition reviewBlock :: "Runtime \<Rightarrow> string \<Rightarrow> nat \<Rightarrow> PullRequestReview \<Rightarrow> string" where
  "reviewBlock rt bodyHeading reviewIndex review =
     ''## Review '' @ natToString reviewIndex @ '' - '' @ stateToString (r_state review)
       @ ''\<newline>\<newline>''
     @ ''**Author:** @'' @ login (r_user review) @ ''\<newline>''
     @ ''**Submitted:** '' @ dateToLocaleString rt (r_submitted_at review) @ ''\<newline>''
     @ ''**[View on GitHub]('' @ r_html_url review @ '')**\<newline>\<newline>''
     @ (if truthyStr (r_body review) then
          bodyHeading @ ''\<newline>\<newline>''
          @ (case r_body review of None \<Rightarrow> [] | Some b \<Rightarrow> b) @ ''\<newline>\<newline>''
        else [])"

text \<open>One turn of the loop over the reviews in the branch that threads and groups:
  the state is the markdown so far and \<^verbatim>\<open>reviewIndex\<close>.\<close>

definition threadedReviewStep ::
  "Runtime \<Rightarrow> PullRequestReviewComment list \<Rightarrow> nat \<Rightarrow> ReviewGroups
     \<Rightarrow> string option \<times> nat \<Rightarrow> PullRequestReview \<Rightarrow> string option \<times> nat" where
  "threadedReviewStep rt comments fuel groups state review =
     (let (markdown, reviewIndex) = state;
          md1 = appendOpt markdown (Some (reviewBlock rt ''### Review Comment'' reviewIndex review));
          reviewComments = groupGet groups (Some (r_id review));
          md2 = (if length reviewComments > 0 then
                   foldl (\<lambda>md comment.
                            appendOpt
                              (appendOpt md (formatCommentWithReplies rt comments fuel comment 0))
                              (Some ''---\<newline>\<newline>''))
                     (appendOpt md1
                        (Some (''### Code Comments ('' @ natToString (length reviewComments)
                               @ '')\<newline>\<newline>'')))
                     reviewComments
                 else md1)
      in (appendOpt md2 (Some ''---\<newline>\<newline>''), reviewIndex + 1))"

definition threadedWithReviews ::
  "Runtime \<Rightarrow> nat \<Rightarrow> PullRequestReview list \<Rightarrow> PullRequestReviewComment list
     \<Rightarrow> string \<Rightarrow> string option" where
  "threadedWithReviews rt fuel reviews comments markdown =
     (let groups = reviewGroups (rootComments comments);
          (md1, reviewIndex) =
             foldl (threadedReviewStep rt comments fuel groups) (Some markdown, 1) reviews;
          orphanedComments = groupGet groups None
      in if length orphanedComments > 0 then
           foldl (\<lambda>md comment.
                    appendOpt
                      (appendOpt md (formatCommentWithReplies rt comments fuel comment 0))
                      (Some ''---\<newline>\<newline>''))
             (appendOpt md1 (Some ''## Standalone Comments\<newline>\<newline>''))
             orphanedComments
         else md1)"

definition threadedOnly ::
  "Runtime \<Rightarrow> nat \<Rightarrow> PullRequestReviewComment list \<Rightarrow> string \<Rightarrow> string option" where
  "threadedOnly rt fuel comments markdown =
     (let roots = rootComments comments
      in foldl (\<lambda>md (index, comment).
                  appendOpt
                    (appendOpt md (formatCommentWithReplies rt comments fuel comment 0))
                    (Some (if Suc index < length roots then ''---\<newline>\<newline>'' else [])))
           (Some markdown) (enumerate 0 roots))"

definition flatReviewStep ::
  "Runtime \<Rightarrow> nat \<Rightarrow> nat \<Rightarrow> string \<times> nat \<Rightarrow> nat \<times> PullRequestReview \<Rightarrow> string \<times> nat" where
  "flatReviewStep rt reviewCount commentCount state item =
     (let (markdown, reviewIndex) = state;
          (index, review) = item
      in (markdown @ reviewBlock rt ''### Comment'' reviewIndex review
            @ (if Suc index < reviewCount \<or> commentCount > 0 then ''---\<newline>\<newline>'' else []),
          reviewIndex + 1))"

definition flatWithReviews ::
  "Runtime \<Rightarrow> FormattingOptions \<Rightarrow> PullRequestReview list \<Rightarrow> PullRequestReviewComment list
     \<Rightarrow> string \<Rightarrow> string" where
  "flatWithReviews rt options reviews comments markdown =
     (let md1 = (if includeReviews options \<and> length reviews > 0 then
                   fst (foldl (flatReviewStep rt (length reviews) (length comments))
                          (markdown, 1) (enumerate 0 reviews))
                 else markdown)
      in foldl (\<lambda>md (index, comment). md @ flatSection rt (length comments) index comment)
           md1 (enumerate 0 comments))"

definition reviewTokens :: "Runtime \<Rightarrow> PullRequestReview list \<Rightarrow> PullRequestReviewComment list \<Rightarrow> nat" where
  "reviewTokens rt reviews comments =
     (let totalTokens =
            foldl (\<lambda>total review.
                     if truthyStr (r_body review)
                     then total + countTokens rt (case r_body review of None \<Rightarrow> [] | Some b \<Rightarrow> b)
                     else total)
              0 reviews
      in foldl (\<lambda>total comment. total + countTokens rt (c_body comment)) totalTokens comments)"

definition reviewsHeader ::
  "Runtime \<Rightarrow> string \<Rightarrow> string \<Rightarrow> int \<Rightarrow> PullRequestReview list \<Rightarrow> PullRequestReviewComment list
     \<Rightarrow> string" where
  "reviewsHeader rt owner repo pullRequestId reviews comments =
     ''# Pull Request #'' @ intToString pullRequestId @ '' Comments\<newline>\<newline>''
     @ ''**Repository:** '' @ owner @ ''/'' @ repo @ ''\<newline>''
     @ ''**Total Reviews:** '' @ natToString (length reviews) @ ''\<newline>''
     @ ''**Total Comments:** '' @ natToString (length comments) @ ''\<newline>''
     @ ''**Total Tokens:** '' @ numberToLocaleString rt (reviewTokens rt reviews comments)
     @ ''\<newline>\<newline>''
     @ ''---\<newline>\<newline>''"

definition formatCommentsWithReviews ::
  "Runtime \<Rightarrow> nat \<Rightarrow> string \<Rightarrow> string \<Rightarrow> int \<Rightarrow> PullRequestReview list
     \<Rightarrow> PullRequestReviewComment list \<Rightarrow> FormattingOptions \<Rightarrow> string option" where
  "formatCommentsWithReviews rt fuel owner repo pullRequestId reviews comments options =
     (let markdown = reviewsHeader rt owner repo pullRequestId reviews comments
      in if length reviews = 0 \<and> length comments = 0 then
           Some (markdown @ ''*No reviews or comments found for this pull request.*\<newline>'')
         else if showThreading options then
           (if includeReviews options \<and> length reviews > 0
            then threadedWithReviews rt fuel reviews comments markdown
            else threadedOnly rt fuel comments markdown)
         else Some (flatWithReviews rt options reviews comments markdown))"

section \<open>The issue renderer (app.ts, formatIssueAsMarkdown)\<close>


definition issueTokens :: "Runtime \<Rightarrow> Issue option \<Rightarrow> IssueComment list \<Rightarrow> nat" where
  "issueTokens rt issue comments =
     (let totalTokens =
            (case issue of
               None \<Rightarrow> 0
             | Some iss \<Rightarrow>
                 if truthyStr (i_body iss)
                 then countTokens rt (case i_body iss of None \<Rightarrow> [] | Some b \<Rightarrow> b)
                 else 0)
      in foldl (\<lambda>total comment. total + countTokens rt (ic_body comment)) totalTokens comments)"


section \<open>The GitHub client (apps/server/lib/github.ts)\<close>

text \<open>
  The global \<^verbatim>\<open>fetch\<close> is the upstream: a request is a URL and the bearer token
  of its \<^verbatim>\<open>Authorization\<close> header (the other headers are constants), the answer
  is a rejection (\<open>Inl\<close>) or a response. A response carries the decoded JSON at
  the type the caller casts it to, so the upstream has one function per
  resource type, and the \<^verbatim>\<open>Link\<close> header by which the upstream names the next
  page.
\<close>

record 'a HttpResponse =
  h_ok :: bool
  h_status :: nat
  h_statusText :: string
  h_text :: string
  h_json :: 'a
  h_link :: "string option"

record Upstream =
  fetchCommentList :: "string \<Rightarrow> string \<Rightarrow> exn + PullRequestReviewComment list HttpResponse"
  fetchReviewList :: "string \<Rightarrow> string \<Rightarrow> exn + PullRequestReview list HttpResponse"
  fetchIssueObject :: "string \<Rightarrow> string \<Rightarrow> exn + Issue HttpResponse"
  fetchIssueCommentList :: "string \<Rightarrow> string \<Rightarrow> exn + IssueComment list HttpResponse"

text \<open>The part shared by the four fetch functions after the call of \<^verbatim>\<open>fetch\<close>:
  a response that is not ok is thrown as an \<^verbatim>\<open>Error\<close>, an ok one gives its
  JSON.\<close>

definition decodeResponse :: "exn + 'a HttpResponse \<Rightarrow> exn + 'a" where
  "decodeResponse answer =
     (case answer of
        Inl err \<Rightarrow> Inl err
      | Inr response \<Rightarrow>
          if \<not> h_ok response then
            Inl (Error (''GitHub API request failed: '' @ natToString (h_status response) @ '' ''
                        @ h_statusText response @ ''\<newline>'' @ h_text response))
          else Inr (h_json response))"

definition commentsUrl :: "string \<Rightarrow> string \<Rightarrow> int \<Rightarrow> string" where
  "commentsUrl owner repo pullRequestId =
     ''https://api.github.com/repos/'' @ owner @ ''/'' @ repo @ ''/pulls/''
     @ intToString pullRequestId @ ''/comments''"

definition reviewsUrl :: "string \<Rightarrow> string \<Rightarrow> int \<Rightarrow> string" where
  "reviewsUrl owner repo pullRequestId =
     ''https://api.github.com/repos/'' @ owner @ ''/'' @ repo @ ''/pulls/''
     @ intToString pullRequestId @ ''/reviews''"

definition issueUrl :: "string \<Rightarrow> string \<Rightarrow> int \<Rightarrow> string" where
  "issueUrl owner repo issueNumber =
     ''https://api.github.com/repos/'' @ owner @ ''/'' @ repo @ ''/issues/''
     @ intToString issueNumber"

definition issueCommentsUrl :: "string \<Rightarrow> string \<Rightarrow> int \<Rightarrow> string" where
  "issueCommentsUrl owner repo issueNumber =
     ''https://api.github.com/repos/'' @ owner @ ''/'' @ repo @ ''/issues/''
     @ intToString issueNumber @ ''/comments''"

text \<open>Each fetch function returns its result and the URLs it requested, in
  order. \<^verbatim>\<open>GitHubClient.getPullRequestComments\<close> and its siblings only pass the
  client's token on, so the client methods are these functions.\<close>

definition fetchPullRequestComments ::
  "Upstream \<Rightarrow> string \<Rightarrow> string \<Rightarrow> int \<Rightarrow> string
     \<Rightarrow> (exn + PullRequestReviewComment list) \<times> string list" where
  "fetchPullRequestComments up owner repo pullRequestId token =
     (let url = commentsUrl owner repo pullRequestId
      in (decodeResponse (fetchCommentList up url token), [url]))"

definition fetchPullRequestReviews ::
  "Upstream \<Rightarrow> string \<Rightarrow> string \<Rightarrow> int \<Rightarrow> string
     \<Rightarrow> (exn + PullRequestReview list) \<times> string list" where
  "fetchPullRequestReviews up owner repo pullRequestId token =
     (let url = reviewsUrl owner repo pullRequestId
      in (decodeResponse (fetchReviewList up url token), [url]))"

definition fetchIssue ::
  "Upstream \<Rightarrow> string \<Rightarrow> string \<Rightarrow> int \<Rightarrow> string \<Rightarrow> (exn + Issue) \<times> string list" where
  "fetchIssue up owner repo issueNumber token =
     (let url = issueUrl owner repo issueNumber
      in (decodeResponse (fetchIssueObject up url token), [url]))"

definition fetchIssueComments ::
  "Upstream \<Rightarrow> string \<Rightarrow> string \<Rightarrow> int \<Rightarrow> string
     \<Rightarrow> (exn + IssueComment list) \<times> string list" where
  "fetchIssueComments up owner repo issueNumber token =
     (let url = issueCommentsUrl owner repo issueNumber
      in (decodeResponse (fetchIssueCommentList up url token), [url]))"

text \<open>\<^verbatim>\<open>Promise.all\<close> starts both requests; when both fail, the model reports the
  failure of the first of the array.\<close>

definition getPullRequestReviewsAndComments ::
  "Upstream \<Rightarrow> string \<Rightarrow> string \<Rightarrow> int \<Rightarrow> string
     \<Rightarrow> (exn + PullRequestReview list \<times> PullRequestReviewComment list) \<times> string list" where
  "getPullRequestReviewsAndComments up owner repo pullRequestId token =
     (let (reviews, calls1) = fetchPullRequestReviews up owner repo pullRequestId token;
          (comments, calls2) = fetchPullRequestComments up owner repo pullRequestId token
      in ((case reviews of
             Inl err \<Rightarrow> Inl err
           | Inr rs \<Rightarrow> (case comments of Inl err \<Rightarrow> Inl err | Inr cs \<Rightarrow> Inr (rs, cs))),
          calls1 @ calls2))"

section \<open>The request handler (app.ts, handlePRComments and its routes)\<close>

record Response =
  status :: nat
  contentType :: string
  body :: string

definition send :: "nat \<Rightarrow> string \<Rightarrow> Response" where
  "send code markdown =
     \<lparr>status = code, contentType = ''text/markdown; charset=utf-8'', body = markdown\<rparr>"

definition commentNotFound :: "int \<Rightarrow> int \<Rightarrow> nat \<Rightarrow> string" where
  "commentNotFound commentNum prId count =
     ''# Error 404\<newline>\<newline>Comment not found.\<newline>\<newline>**Comment Number:** ''
     @ intToString commentNum @ ''\<newline>**Pull Request:** #'' @ intToString prId
     @ ''\<newline>**Total Comments:** '' @ natToString count
     @ ''\<newline>\<newline>Comment number must be between 1 and '' @ natToString count @ ''.''"

definition fetchFailed :: "exn \<Rightarrow> string" where
  "fetchFailed err =
     ''# Error\<newline>\<newline>Failed to fetch pull request comments.\<newline>\<newline>**Details:** ''
     @ (case err of Error message \<Rightarrow> message)"

definition missingToken :: string where
  "missingToken =
     ''# Error 401\<newline>\<newline>Missing GitHub token.\<newline>\<newline>**Options:**\<newline>''
     @ ''- Set `GITHUB_TOKEN` environment variable\<newline>''
     @ ''- Pass token as query parameter: `?token=your_token`''"

text \<open>
  The handler returns the response and the URLs requested from the upstream. The
  parameter \<open>fuel\<close> is the depth of recursion that the stack allows: a renderer
  that exhausts it throws inside the \<^verbatim>\<open>try\<close> block, and the \<^verbatim>\<open>catch\<close> answers
  500 with the message of that error, \<open>stackOverflow\<close>.
\<close>

definition stackOverflow :: exn where
  "stackOverflow = Error ''Maximum call stack size exceeded''"

definition handlePRComments ::
  "Runtime \<Rightarrow> Upstream \<Rightarrow> nat \<Rightarrow> string \<Rightarrow> string \<Rightarrow> string \<Rightarrow> string option \<Rightarrow> string
     \<Rightarrow> FormattingOptions \<Rightarrow> Response \<times> string list" where
  "handlePRComments rt up fuel owner repo pullRequestId commentNumber token options =
     (if owner = [] \<or> repo = [] \<or> pullRequestId = [] then
        (send 400 (''# Error 400\<newline>\<newline>Missing required parameters.\<newline>\<newline>''
                   @ ''Expected: /:owner/:repo/pull/:pullRequestId''), [])
      else
        (case parseInt pullRequestId of
           None \<Rightarrow>
             (send 400 (''# Error 400\<newline>\<newline>Invalid pull request ID.\<newline>\<newline>**Received:** ''
                        @ pullRequestId @ ''\<newline>\<newline>Pull request ID must be a number.''), [])
         | Some prId \<Rightarrow>
             (let given = (case commentNumber of None \<Rightarrow> [] | Some text \<Rightarrow> text);
                  commentNum = (if given \<noteq> [] then parseInt given else None)
              in if given \<noteq> [] \<and> commentNum = None then
                   (send 400 (''# Error 400\<newline>\<newline>Invalid comment number.\<newline>\<newline>**Received:** ''
                              @ given @ ''\<newline>\<newline>Comment number must be a number.''), [])
                 else if token = [] then (send 401 missingToken, [])
                 else if includeReviews options \<or> showThreading options then
                   (case getPullRequestReviewsAndComments up owner repo prId token of
                      (Inl err, calls) \<Rightarrow> (send 500 (fetchFailed err), calls)
                    | (Inr (reviews, comments), calls) \<Rightarrow>
                        (let filteredComments = comments
                         in case commentNum of
                              None \<Rightarrow>
                                (case formatCommentsWithReviews rt fuel owner repo prId reviews
                                        filteredComments options of
                                   None \<Rightarrow> (send 500 (fetchFailed stackOverflow), calls)
                                 | Some markdown \<Rightarrow> (send 200 markdown, calls))
                            | Some n \<Rightarrow>
                                if n < 1 \<or> n > int (length filteredComments) then
                                  (send 404 (commentNotFound n prId (length filteredComments)), calls)
                                else
                                  (case formatCommentsWithReviews rt fuel owner repo prId reviews
                                          [filteredComments ! nat (n - 1)] options of
                                     None \<Rightarrow> (send 500 (fetchFailed stackOverflow), calls)
                                   | Some markdown \<Rightarrow> (send 200 markdown, calls))))
                 else
                   (case fetchPullRequestComments up owner repo prId token of
                      (Inl err, calls) \<Rightarrow> (send 500 (fetchFailed err), calls)
                    | (Inr comments, calls) \<Rightarrow>
                        (case commentNum of
                           None \<Rightarrow>
                             (send 200 (formatCommentsAsMarkdown rt owner repo prId comments), calls)
                         | Some n \<Rightarrow>
                             if n < 1 \<or> n > int (length comments) then
                               (send 404 (commentNotFound n prId (length comments)), calls)
                             else
                               (send 200 (formatCommentsAsMarkdown rt owner repo prId
                                            [comments ! nat (n - 1)]), calls))))))"

text \<open>
  The two pull-request routes. A request is its path parameters and its query
  string, both maps from a name to a string; \<open>envToken\<close> is
  \<^verbatim>\<open>process.env.GITHUB_TOKEN\<close>.
\<close>

record Request =
  params :: "string \<rightharpoonup> string"
  query :: "string \<rightharpoonup> string"

definition orElse :: "string option \<Rightarrow> string \<Rightarrow> string" where
  "orElse v alternative = (case v of None \<Rightarrow> alternative | Some s \<Rightarrow> if s = [] then alternative else s)"

definition requestToken :: "string option \<Rightarrow> Request \<Rightarrow> string" where
  "requestToken envToken req = orElse (query req ''token'') (orElse envToken [])"

definition requestOptions :: "Request \<Rightarrow> FormattingOptions" where
  "requestOptions req =
     \<lparr>includeReviews = (query req ''include_reviews'' = Some ''true''),
      showThreading = (query req ''show_threading'' = Some ''true''),
      resolvedFilter = query req ''resolved''\<rparr>"

definition missingParameters :: Response where
  "missingParameters = send 400 ''# Error 400\<newline>\<newline>Missing required parameters.''"

definition routePullComment ::
  "Runtime \<Rightarrow> Upstream \<Rightarrow> nat \<Rightarrow> string option \<Rightarrow> Request \<Rightarrow> Response \<times> string list" where
  "routePullComment rt up fuel envToken req =
     (let owner = orElse (params req ''owner'') [];
          repo = orElse (params req ''repo'') [];
          pullRequestId = orElse (params req ''pullRequestId'') [];
          commentNumber = orElse (params req ''commentNumber'') []
      in if owner = [] \<or> repo = [] \<or> pullRequestId = [] \<or> commentNumber = [] then
           (missingParameters, [])
         else
           handlePRComments rt up fuel owner repo pullRequestId (Some commentNumber)
             (requestToken envToken req) (requestOptions req))"

definition routePull ::
  "Runtime \<Rightarrow> Upstream \<Rightarrow> nat \<Rightarrow> string option \<Rightarrow> Request \<Rightarrow> Response \<times> string list" where
  "routePull rt up fuel envToken req =
     (let owner = orElse (params req ''owner'') [];
          repo = orElse (params req ''repo'') [];
          pullRequestId = orElse (params req ''pullRequestId'') []
      in if owner = [] \<or> repo = [] \<or> pullRequestId = [] then (missingParameters, [])
         else
           handlePRComments rt up fuel owner repo pullRequestId None
             (requestToken envToken req) (requestOptions req))"

section \<open>The thread assembler and the grouped document, as the specification words them\<close>

text \<open>
  A thread is a comment with the ordered threads of its replies. The replies of a
  node are the comments of the input whose \<^verbatim>\<open>in_reply_to_id\<close> is the node's id,
  in input order, whatever their own \<^verbatim>\<open>pull_request_review_id\<close>. Assembling
  carries the same fuel as the renderer.
\<close>

datatype Tree = Node PullRequestReviewComment "Tree list"


fun assembleTree :: "PullRequestReviewComment list \<Rightarrow> nat \<Rightarrow> PullRequestReviewComment \<Rightarrow> Tree option" where
  "assembleTree comments 0 comment = None"
| "assembleTree comments (Suc fuel) comment =
     map_option (Node comment)
       (those (map (assembleTree comments fuel)
                 (filter (\<lambda>reply. c_in_reply_to_id reply = Some (c_id comment)) comments)))"

definition assembleThreads ::
  "PullRequestReviewComment list \<Rightarrow> nat \<Rightarrow> PullRequestReviewComment list \<Rightarrow> Tree list option" where
  "assembleThreads comments fuel roots = those (map (assembleTree comments fuel) roots)"



text \<open>
  The text of one node of a thread at a depth. A comment at depth 0 is headed by
  its id, a reply by the reply marker; then come, each on a line of its own and
  indented by two spaces per level, the author, the creation time, the file, the
  line range (start and end if both are given, the line alone if only it is, a
  line number 0 counting as not given; the side is RIGHT when absent) and the
  link; then the body as a block quote, every line of it prefixed.
\<close>

definition lineTexts :: "PullRequestReviewComment \<Rightarrow> string list" where
  "lineTexts comment =
     (let side = (case c_side comment of None \<Rightarrow> ''RIGHT'' | Some LEFT \<Rightarrow> ''LEFT''
                  | Some RIGHT \<Rightarrow> ''RIGHT'');
          given = (\<lambda>v. case v of None \<Rightarrow> None | Some n \<Rightarrow> if n = 0 then None else Some n)
      in case given (c_line comment) of
           None \<Rightarrow> []
         | Some line \<Rightarrow>
             (case given (c_start_line comment) of
                None \<Rightarrow> [''**Line:** '' @ intToString line @ '' ('' @ side @ '' side)'']
              | Some start \<Rightarrow>
                  [''**Lines:** '' @ intToString start @ ''-'' @ intToString line
                   @ '' ('' @ side @ '' side)'']))"

definition quoteLines :: "string \<Rightarrow> string \<Rightarrow> string" where
  "quoteLines indent content =
     concat (map (\<lambda>line. indent @ ''> '' @ line @ ''\<newline>'') (splitNewline content))"

definition nodeText :: "Runtime \<Rightarrow> nat \<Rightarrow> PullRequestReviewComment \<Rightarrow> string" where
  "nodeText rt depth comment =
     (let indent = concat (replicate depth ''  '')
      in (if depth = 0 then ''## Comment '' @ intToString (c_id comment)
          else indent @ ''**'' @ replyArrow @ '' Reply**'')
         @ ''\<newline>\<newline>''
         @ concat (map (\<lambda>line. indent @ line @ ''\<newline>'')
                     ([''**Author:** @'' @ login (c_user comment),
                       ''**Created:** '' @ dateToLocaleString rt (c_created_at comment),
                       ''**File:** `'' @ c_path comment @ ''`'']
                      @ lineTexts comment
                      @ [''**[View on GitHub]('' @ c_html_url comment @ '')**'']))
         @ ''\<newline>''
         @ quoteLines indent (c_body comment)
         @ ''\<newline>'')"

fun renderTree :: "Runtime \<Rightarrow> nat \<Rightarrow> Tree \<Rightarrow> string" where
  "renderTree rt depth (Node comment replies) =
     nodeText rt depth comment @ concat (map (renderTree rt (depth + 1)) replies)"

definition renderThreads :: "Runtime \<Rightarrow> Tree list \<Rightarrow> string" where
  "renderThreads rt threads = concat (map (\<lambda>t. renderTree rt 0 t @ ''---\<newline>\<newline>'') threads)"





section \<open>The loops of the grouping branch in closed form\<close>

text \<open>
  What the two loops of \<^verbatim>\<open>threadedWithReviews\<close> append, written without the
  accumulators: the proofs go through these forms, which are shown equal to the
  loops. They take the roots and the review block of the code.
\<close>

definition loopSection ::
  "Runtime \<Rightarrow> PullRequestReviewComment list \<Rightarrow> nat \<Rightarrow> nat \<times> PullRequestReview \<Rightarrow> string option" where
  "loopSection rt comments fuel item =
     (let (number, review) = item;
          roots = filter (\<lambda>c. c_pull_request_review_id c = Some (r_id review))
                    (rootComments comments)
      in map_option
           (\<lambda>threads.
              reviewBlock rt ''### Review Comment'' number review
              @ (if threads = [] then []
                 else ''### Code Comments ('' @ natToString (length threads) @ '')\<newline>\<newline>''
                      @ renderThreads rt threads)
              @ ''---\<newline>\<newline>'')
           (assembleThreads comments fuel roots))"

definition loopStandalone ::
  "Runtime \<Rightarrow> PullRequestReviewComment list \<Rightarrow> nat \<Rightarrow> string option" where
  "loopStandalone rt comments fuel =
     map_option
       (\<lambda>threads.
          if threads = [] then []
          else ''## Standalone Comments\<newline>\<newline>'' @ renderThreads rt threads)
       (assembleThreads comments fuel
          (filter (\<lambda>c. c_pull_request_review_id c = None) (rootComments comments)))"

definition loopDocument ::
  "Runtime \<Rightarrow> nat \<Rightarrow> PullRequestReview list \<Rightarrow> PullRequestReviewComment list \<Rightarrow> string option" where
  "loopDocument rt fuel reviews comments =
     appendOpt
       (map_option concat (those (map (loopSection rt comments fuel) (enumerate 1 reviews))))
       (loopStandalone rt comments fuel)"

section \<open>The headers and the token totals, as the specification words them\<close>






text \<open>When the tokenizer fails on a text: one of its three calls throws.\<close>

definition tokenizerThrows :: "Runtime \<Rightarrow> string \<Rightarrow> bool" where
  "tokenizerThrows rt text =
     (case encoding_for_model rt ''gpt-4'' of
        Inl err \<Rightarrow> True
      | Inr encoder \<Rightarrow>
          (case encode encoder text of
             Inl err \<Rightarrow> True
           | Inr tokens \<Rightarrow> (case free encoder of Inl err \<Rightarrow> True | Inr u \<Rightarrow> False)))"

text \<open>A comment list in which 0 is both the id of a comment and the target of a
  reply: the reply to comment 0 has a falsy \<^verbatim>\<open>in_reply_to_id\<close> and is taken
  for a root.\<close>

definition zeroIdReplied :: "PullRequestReviewComment list \<Rightarrow> bool" where
  "zeroIdReplied comments =
     (0 \<in> set (map c_id comments) \<and> Some 0 \<in> set (map c_in_reply_to_id comments))"

text \<open>A path of replies from a comment up to a root of the renderer: each comment
  of the list replies to the next one, and the \<^verbatim>\<open>in_reply_to_id\<close> of the last is
  falsy.\<close>

fun replyPath :: "PullRequestReviewComment list \<Rightarrow> bool" where
  "replyPath [] = False"
| "replyPath [root] = (\<not> truthyNum (c_in_reply_to_id root))"
| "replyPath (child # parent # ancestors) =
     (c_in_reply_to_id child = Some (c_id parent) \<and> replyPath (parent # ancestors))"

section \<open>Concrete inputs\<close>

definition exampleEncoder :: Encoder where
  "exampleEncoder = \<lparr>encode = (\<lambda>text. Inr (map of_char text)), free = Inr ()\<rparr>"

definition exampleRuntime :: Runtime where
  "exampleRuntime =
     \<lparr>encoding_for_model = (\<lambda>model. Inr exampleEncoder),
      numberToLocaleString = natToString,
      dateToLocaleString = (\<lambda>iso. iso)\<rparr>"

definition brokenRuntime :: Runtime where
  "brokenRuntime =
     \<lparr>encoding_for_model = (\<lambda>model. Inl (Error ''unknown model'')),
      numberToLocaleString = natToString,
      dateToLocaleString = (\<lambda>iso. iso)\<rparr>"

definition exampleComment :: "int \<Rightarrow> int option \<Rightarrow> int option \<Rightarrow> string \<Rightarrow> PullRequestReviewComment" where
  "exampleComment ident reply review content =
     \<lparr>c_pull_request_review_id = review, c_id = ident, c_path = ''src/app.ts'',
      c_in_reply_to_id = reply, c_user = \<lparr>login = ''octocat''\<rparr>, c_body = content,
      c_created_at = ''2023-01-02'', c_html_url = ''https://github.com/o/r/pull/1#c'',
      c_start_line = None, c_line = Some 7, c_side = None\<rparr>"

definition exampleReview :: "int \<Rightarrow> PullRequestReview" where
  "exampleReview ident =
     \<lparr>r_id = ident, r_user = \<lparr>login = ''hubot''\<rparr>, r_body = Some ''Looks good'',
      r_state = APPROVED, r_html_url = ''https://github.com/o/r/pull/1#r'',
      r_submitted_at = ''2023-01-03''\<rparr>"

definition exampleIssueComment :: "nat \<Rightarrow> IssueComment" where
  "exampleIssueComment n =
     \<lparr>ic_id = int n, ic_user = \<lparr>login = ''commenter''\<rparr>, ic_created_at = ''2023-01-02'',
      ic_body = ''Comment body'', ic_html_url = ''https://github.com/o/r/issues/123#c''\<rparr>"

definition okResponse :: "'a \<Rightarrow> string option \<Rightarrow> 'a HttpResponse" where
  "okResponse payload next =
     \<lparr>h_ok = True, h_status = 200, h_statusText = ''OK'', h_text = [], h_json = payload,
      h_link = next\<rparr>"

definition notFoundResponse :: "'a \<Rightarrow> 'a HttpResponse" where
  "notFoundResponse payload =
     \<lparr>h_ok = False, h_status = 404, h_statusText = ''Not Found'', h_text = ''Not Found'',
      h_json = payload, h_link = None\<rparr>"

text \<open>An upstream that serves every list in two pages of 100 items: the first
  page at the URL without a page parameter, with a \<^verbatim>\<open>Link\<close> header naming the
  second; the second at that URL, with no further link.\<close>

definition nextLink :: "string \<Rightarrow> string" where
  "nextLink url = ''<'' @ url @ ''?per_page=100&page=2>; rel='' @ [CHR 0x22] @ ''next'' @ [CHR 0x22]"

definition pagedList :: "(nat \<Rightarrow> 'a) \<Rightarrow> string \<Rightarrow> string \<Rightarrow> string \<Rightarrow> exn + 'a list HttpResponse" where
  "pagedList item base url token =
     (if url = base then Inr (okResponse (map item [1..<101]) (Some (nextLink base)))
      else if url = base @ ''?per_page=100&page=2'' then
        Inr (okResponse (map item [101..<201]) None)
      else Inr (notFoundResponse []))"

definition pagedUpstream :: Upstream where
  "pagedUpstream =
     \<lparr>fetchCommentList =
        pagedList (\<lambda>n. exampleComment (int n) None None ''Comment body'')
          (commentsUrl ''owner'' ''repo'' 123),
      fetchReviewList = pagedList (\<lambda>n. exampleReview (int n)) (reviewsUrl ''owner'' ''repo'' 123),
      fetchIssueObject = (\<lambda>url token. Inl (Error ''unused'')),
      fetchIssueCommentList =
        pagedList exampleIssueComment (issueCommentsUrl ''owner'' ''repo'' 123)\<rparr>"

text \<open>An upstream with one page: a root comment 1 and comment 2, a reply to it.\<close>

definition threadUpstream :: Upstream where
  "threadUpstream =
     \<lparr>fetchCommentList =
        (\<lambda>url token.
           Inr (okResponse
                  [exampleComment 1 None None ''Why a loop?'',
                   exampleComment 2 (Some 1) None ''It reads better.''] None)),
      fetchReviewList = (\<lambda>url token. Inr (okResponse [] None)),
      fetchIssueObject = (\<lambda>url token. Inl (Error ''unused'')),
      fetchIssueCommentList = (\<lambda>url token. Inr (okResponse [] None))\<rparr>"



definition threadingOnly :: FormattingOptions where
  "threadingOnly = \<lparr>includeReviews = False, showThreading = True, resolvedFilter = None\<rparr>"

definition threadingAndReviews :: FormattingOptions where
  "threadingAndReviews = \<lparr>includeReviews = True, showThreading = True, resolvedFilter = None\<rparr>"

definition exampleRequest :: Request where
  "exampleRequest =
     \<lparr>params = [''owner'' \<mapsto> ''o'', ''repo'' \<mapsto> ''r'', ''pullRequestId'' \<mapsto> ''1''],
      query = [''token'' \<mapsto> ''secret'', ''show_threading'' \<mapsto> ''true'']\<rparr>"

section \<open>Loops as closed forms\<close>


lemma foldl_add_sum:
  "foldl (\<lambda>total x. total + g x) (a::nat) xs = a + sum_list (map g xs)"
  by (induction xs arbitrary: a) auto




section \<open>Token accounting\<close>

lemma countTokens_throws: "tokenizerThrows rt text \<Longrightarrow> countTokens rt text = 0"
  by (auto simp: tokenizerThrows_def countTokens_def Let_def split: sum.splits)

lemma countTokens_returns:
  "encoding_for_model rt ''gpt-4'' = Inr encoder \<Longrightarrow> encode encoder text = Inr tokens \<Longrightarrow>
   free encoder = Inr u \<Longrightarrow> countTokens rt text = length tokens"
  by (simp add: countTokens_def)

lemma all_throw_sum:
  "\<forall>c \<in> set comments. tokenizerThrows rt (c_body c) \<Longrightarrow>
   sum_list (map (\<lambda>c. countTokens rt (c_body c)) comments) = 0"
  by (induction comments) (simp_all add: countTokens_throws)

text \<open>The totals of the other two renderers are sums of independent counts as
  well: over the review bodies that are present and all comment bodies, and over
  the issue body if present and all comment bodies.\<close>

lemma reviewTokens_sum:
  "reviewTokens rt reviews comments =
     sum_list (map (\<lambda>r. countTokens rt (case r_body r of None \<Rightarrow> [] | Some b \<Rightarrow> b))
                 (filter (\<lambda>r. truthyStr (r_body r)) reviews))
     + sum_list (map (\<lambda>c. countTokens rt (c_body c)) comments)"
proof -
  have "foldl (\<lambda>total review.
                 if truthyStr (r_body review)
                 then total + countTokens rt (case r_body review of None \<Rightarrow> [] | Some b \<Rightarrow> b)
                 else total) a reviews =
        a + sum_list (map (\<lambda>r. countTokens rt (case r_body r of None \<Rightarrow> [] | Some b \<Rightarrow> b))
                        (filter (\<lambda>r. truthyStr (r_body r)) reviews))" for a :: nat
    by (induction reviews arbitrary: a) auto
  then show ?thesis
    by (simp add: reviewTokens_def foldl_add_sum)
qed

lemma issueTokens_sum:
  "issueTokens rt issue comments =
     (case issue of
        None \<Rightarrow> 0
      | Some iss \<Rightarrow>
          if truthyStr (i_body iss)
          then countTokens rt (case i_body iss of None \<Rightarrow> [] | Some b \<Rightarrow> b) else 0)
     + sum_list (map (\<lambda>c. countTokens rt (ic_body c)) comments)"
  by (simp add: issueTokens_def foldl_add_sum)

section \<open>Folds over partial strings\<close>

lemma appendOpt_simps [simp]:
  "appendOpt None b = None"
  "appendOpt a None = None"
  "appendOpt (Some x) (Some y) = Some (x @ y)"
  by (simp_all add: appendOpt_def split: option.splits)

lemma appendOpt_assoc: "appendOpt (appendOpt a b) c = appendOpt a (appendOpt b c)"
  by (cases a; cases b; cases c) simp_all

lemma foldl_appendOpt_None: "foldl (\<lambda>out x. appendOpt out (g x)) None xs = None"
  by (induction xs) simp_all

lemma foldl_appendOpt:
  "foldl (\<lambda>out x. appendOpt out (g x)) (Some a) xs =
     map_option (\<lambda>texts. a @ concat texts) (those (map g xs))"
proof (induction xs arbitrary: a)
  case Nil
  then show ?case by simp
next
  case (Cons x xs)
  show ?case
  proof (cases "g x")
    case None
    then show ?thesis by (simp add: foldl_appendOpt_None)
  next
    case (Some s)
    then show ?thesis
      by (simp add: Cons.IH option.map_comp comp_def split: option.splits)
  qed
qed

lemma those_map_map_option:
  "those (map (\<lambda>x. map_option h (k x)) xs) = map_option (map h) (those (map k xs))"
  by (induction xs) (auto split: option.splits simp: option.map_comp comp_def)

lemma those_eq_Some_map:
  "those xs = Some ys \<Longrightarrow> xs = map Some ys"
  by (induction xs arbitrary: ys) (auto split: option.splits)

lemma formatCommentWithReplies_Suc:
  "formatCommentWithReplies rt comments (Suc fuel) comment depth =
     map_option (\<lambda>texts. commentBlock rt comment depth @ concat texts)
       (those (map (\<lambda>reply. formatCommentWithReplies rt comments fuel reply (Suc depth))
                 (getReplies comments (c_id comment))))"
  by (simp add: foldl_appendOpt)




section \<open>The resolved option\<close>

lemma formatCommentsWithReviews_resolved:
  "formatCommentsWithReviews rt fuel owner repo prId reviews comments
     (options\<lparr>resolvedFilter := v\<rparr>) =
   formatCommentsWithReviews rt fuel owner repo prId reviews comments options"
  by (simp add: formatCommentsWithReviews_def flatWithReviews_def Let_def)

lemma handlePRComments_resolved:
  "handlePRComments rt up fuel owner repo prId commentNumber token
     (options\<lparr>resolvedFilter := v\<rparr>) =
   handlePRComments rt up fuel owner repo prId commentNumber token options"
  by (simp add: handlePRComments_def formatCommentsWithReviews_resolved Let_def
      cong: option.case_cong sum.case_cong prod.case_cong if_cong)

lemma requestOptions_resolved:
  "requestOptions (req\<lparr>query := (query req)(''resolved'' := v)\<rparr>) =
     (requestOptions req)\<lparr>resolvedFilter := v\<rparr>"
  by (simp add: requestOptions_def)

lemma requestToken_resolved:
  "requestToken envToken (req\<lparr>query := (query req)(''resolved'' := v)\<rparr>) =
     requestToken envToken req"
  by (simp add: requestToken_def)

text \<open>
  C8. Two requests that differ only in the \<^verbatim>\<open>resolved\<close> query option, whatever
  its two values and whether it is present, get the same response and cause the
  same upstream requests, on both pull-request routes.
\<close>

theorem resolved_option_has_no_effect:
  "routePull rt up fuel envToken (req\<lparr>query := (query req)(''resolved'' := v)\<rparr>) =
     routePull rt up fuel envToken (req\<lparr>query := (query req)(''resolved'' := w)\<rparr>)
   \<and> routePullComment rt up fuel envToken (req\<lparr>query := (query req)(''resolved'' := v)\<rparr>) =
     routePullComment rt up fuel envToken (req\<lparr>query := (query req)(''resolved'' := w)\<rparr>)"
  by (simp add: routePull_def routePullComment_def requestOptions_resolved
      requestToken_resolved handlePRComments_resolved Let_def)

theorem resolved_option_witness:
  "routePull exampleRuntime threadUpstream 5 None
     (exampleRequest\<lparr>query := (query exampleRequest)(''resolved'' := Some ''true'')\<rparr>) =
   routePull exampleRuntime threadUpstream 5 None
     (exampleRequest\<lparr>query := (query exampleRequest)(''resolved'' := None)\<rparr>)"
  using resolved_option_has_no_effect
    [of exampleRuntime threadUpstream 5 None exampleRequest "Some ''true''" None]
  by (rule conjunct1)

lemma concat_those_Cons:
  "map_option concat (those (x # xs)) = appendOpt x (map_option concat (those xs))"
  by (cases x; cases "those xs") simp_all

lemma foldl_appendOpt_general:
  "foldl (\<lambda>out x. appendOpt out (g x)) acc xs =
     appendOpt acc (map_option concat (those (map g xs)))"
proof (induction xs arbitrary: acc)
  case Nil
  then show ?case by (cases acc) simp_all
next
  case (Cons x xs)
  then show ?case
    by (simp only: foldl_Cons list.map concat_those_Cons appendOpt_assoc)
qed

lemma appendOpt_separator:
  "appendOpt (appendOpt md x) (Some sep) = appendOpt md (map_option (\<lambda>s. s @ sep) x)"
  by (cases md; cases x) simp_all

section \<open>The text of a node and of a review head\<close>

lemma splitNewline_nonempty: "splitNewline s \<noteq> []"
  by (induction s) (auto split: list.splits)

lemma quote_join:
  "ls \<noteq> [] \<Longrightarrow>
   indent @ ''> '' @ join (''\<newline>'' @ indent @ ''> '') ls @ ''\<newline>'' =
     concat (map (\<lambda>line. indent @ ''> '' @ line @ ''\<newline>'') ls)"
proof (induction ls)
  case Nil
  then show ?case by simp
next
  case (Cons l ls)
  then show ?case by (cases ls) simp_all
qed

lemma lineInfo_lineTexts:
  "lineInfo indent comment = concat (map (\<lambda>line. indent @ line @ ''\<newline>'') (lineTexts comment))"
  by (simp add: lineInfo_def lineTexts_def truthyNum_def sideToString_def
      split: option.splits Side.splits)

lemma commentBlock_nodeText: "commentBlock rt comment depth = nodeText rt depth comment"
  using quote_join [OF splitNewline_nonempty, of "repeat ''  '' depth" "c_body comment"]
  by (simp add: commentBlock_def nodeText_def quoteLines_def lineInfo_lineTexts repeat_def
      Let_def)


section \<open>The renderer builds the assembled trees\<close>

lemma format_renders_tree:
  "formatCommentWithReplies rt comments fuel comment depth =
     map_option (renderTree rt depth) (assembleTree comments fuel comment)"
proof (induction fuel arbitrary: comment depth)
  case 0
  then show ?case by simp
next
  case (Suc fuel)
  show ?case
    unfolding formatCommentWithReplies_Suc Suc.IH those_map_map_option
    by (simp add: getReplies_def option.map_comp comp_def commentBlock_nodeText)
qed

lemma threads_loop:
  "foldl (\<lambda>md comment.
            appendOpt (appendOpt md (formatCommentWithReplies rt comments fuel comment 0))
              (Some ''---\<newline>\<newline>''))
     md0 roots =
   appendOpt md0 (map_option (renderThreads rt) (assembleThreads comments fuel roots))"
proof -
  have "foldl (\<lambda>md comment.
            appendOpt (appendOpt md (formatCommentWithReplies rt comments fuel comment 0))
              (Some ''---\<newline>\<newline>''))
     md0 roots =
     foldl (\<lambda>md comment.
            appendOpt md (map_option (\<lambda>t. renderTree rt 0 t @ ''---\<newline>\<newline>'')
                            (assembleTree comments fuel comment)))
     md0 roots"
    by (simp only: appendOpt_separator format_renders_tree option.map_comp comp_def)
  also have "\<dots> = appendOpt md0 (map_option (renderThreads rt) (assembleThreads comments fuel roots))"
    by (simp only: foldl_appendOpt_general those_map_map_option option.map_comp comp_def
        renderThreads_def [abs_def] assembleThreads_def)
  finally show ?thesis .
qed

lemma assembleThreads_length:
  "assembleThreads comments fuel roots = Some threads \<Longrightarrow> length threads = length roots"
  unfolding assembleThreads_def
  by (drule those_eq_Some_map) (metis length_map)

section \<open>Grouping by review\<close>

lemma groupGet_groupPush:
  "groupGet (groupPush groups comment) k =
     (if k = c_pull_request_review_id comment then groupGet groups k @ [comment]
      else groupGet groups k)"
  by (simp add: groupGet_def groupPush_def Let_def)

lemma groupGet_foldl:
  "groupGet (foldl groupPush groups roots) k =
     groupGet groups k @ filter (\<lambda>c. c_pull_request_review_id c = k) roots"
  by (induction roots arbitrary: groups) (auto simp: groupGet_groupPush)

lemma groupGet_reviewGroups:
  "groupGet (reviewGroups roots) k = filter (\<lambda>c. c_pull_request_review_id c = k) roots"
  by (simp add: reviewGroups_def groupGet_foldl) (simp add: groupGet_def)

lemma threadedReviewStep_unfold:
  "threadedReviewStep rt comments fuel (reviewGroups (rootComments comments)) (md, number) review =
     (let roots = filter (\<lambda>c. c_pull_request_review_id c = Some (r_id review))
                    (rootComments comments);
          md1 = appendOpt md (Some (reviewBlock rt ''### Review Comment'' number review))
      in (appendOpt
            (if roots = [] then md1
             else appendOpt
                    (appendOpt md1
                       (Some (''### Code Comments ('' @ natToString (length roots)
                              @ '')\<newline>\<newline>'')))
                    (map_option (renderThreads rt) (assembleThreads comments fuel roots)))
            (Some ''---\<newline>\<newline>''),
          number + 1))"
  by (simp add: threadedReviewStep_def groupGet_reviewGroups threads_loop Let_def)

lemma threadedReviewStep_section:
  "threadedReviewStep rt comments fuel (reviewGroups (rootComments comments)) (md, number) review =
     (appendOpt md (loopSection rt comments fuel (number, review)), number + 1)"
proof -
  let ?roots = "filter (\<lambda>c. c_pull_request_review_id c = Some (r_id review)) (rootComments comments)"
  show ?thesis
  proof (cases "assembleThreads comments fuel ?roots")
    case None
    then have "?roots \<noteq> []" by (auto simp: assembleThreads_def)
    with None show ?thesis
      by (simp add: threadedReviewStep_unfold loopSection_def Let_def)
  next
    case (Some threads)
    from assembleThreads_length [OF Some] have len: "length threads = length ?roots" .
    show ?thesis
    proof (cases "?roots = []")
      case True
      with len have "threads = []" by simp
      with Some True show ?thesis
        by (cases md) (simp_all add: threadedReviewStep_unfold loopSection_def Let_def)
    next
      case False
      with len have "threads \<noteq> []" by auto
      with Some False show ?thesis
        by (cases md)
          (simp_all add: threadedReviewStep_unfold loopSection_def Let_def len [symmetric])
    qed
  qed
qed

lemma reviews_loop:
  "foldl (threadedReviewStep rt comments fuel (reviewGroups (rootComments comments)))
     (md, number) reviews =
   (appendOpt md
      (map_option concat (those (map (loopSection rt comments fuel) (enumerate number reviews)))),
    number + length reviews)"
proof (induction reviews arbitrary: md number)
  case Nil
  then show ?case by (cases md) simp_all
next
  case (Cons review reviews)
  show ?case
    by (simp only: foldl_Cons threadedReviewStep_section Cons.IH enumerate_simps list.map
        concat_those_Cons appendOpt_assoc) simp
qed

lemma standalone_loop:
  "(let orphanedComments = groupGet (reviewGroups (rootComments comments)) None
    in if length orphanedComments > 0 then
         foldl (\<lambda>md comment.
                  appendOpt (appendOpt md (formatCommentWithReplies rt comments fuel comment 0))
                    (Some ''---\<newline>\<newline>''))
           (appendOpt md1 (Some ''## Standalone Comments\<newline>\<newline>''))
           orphanedComments
       else md1) =
   appendOpt md1 (loopStandalone rt comments fuel)"
proof -
  let ?roots = "filter (\<lambda>c. c_pull_request_review_id c = None) (rootComments comments)"
  show ?thesis
  proof (cases "assembleThreads comments fuel ?roots")
    case None
    then have "?roots \<noteq> []" by (auto simp: assembleThreads_def)
    with None show ?thesis
      by (simp add: loopStandalone_def groupGet_reviewGroups threads_loop)
  next
    case (Some threads)
    from assembleThreads_length [OF Some] have "threads = [] \<longleftrightarrow> ?roots = []" by auto
    with Some show ?thesis
      by (cases md1; cases "?roots = []")
        (simp_all add: loopStandalone_def groupGet_reviewGroups threads_loop)
  qed
qed

lemma threadedWithReviews_document:
  "threadedWithReviews rt fuel reviews comments markdown =
     appendOpt (Some markdown) (loopDocument rt fuel reviews comments)"
  unfolding threadedWithReviews_def Let_def reviews_loop prod.case
  using standalone_loop [unfolded Let_def]
  by (simp add: loopDocument_def appendOpt_assoc)

section \<open>Termination of the threaded renderer\<close>

lemma those_not_None: "(\<And>x. x \<in> set xs \<Longrightarrow> x \<noteq> None) \<Longrightarrow> those xs \<noteq> None"
  by (induction xs) (auto split: option.splits)

lemma replyPath_member:
  "replyPath path \<Longrightarrow> r \<in> set path \<Longrightarrow>
   \<not> truthyNum (c_in_reply_to_id r) \<or> (\<exists>p \<in> set (tl path). c_in_reply_to_id r = Some (c_id p))"
  by (induction path rule: replyPath.induct) auto

lemma reply_not_on_path:
  assumes path: "replyPath (c # ancestors)"
    and dist: "distinct (c # ancestors)"
    and sub: "set (c # ancestors) \<subseteq> set comments"
    and ids: "distinct (map c_id comments)"
    and zero: "\<not> zeroIdReplied comments"
    and r: "r \<in> set comments" "c_in_reply_to_id r = Some (c_id c)"
  shows "r \<notin> set (c # ancestors)"
proof
  assume "r \<in> set (c # ancestors)"
  from replyPath_member [OF path this]
  consider "\<not> truthyNum (c_in_reply_to_id r)"
    | p where "p \<in> set ancestors" "c_in_reply_to_id r = Some (c_id p)"
    by auto
  then show False
  proof cases
    case 1
    with r have "c_id c = 0" by (simp add: truthyNum_def)
    moreover have "c \<in> set comments" using sub by simp
    ultimately have "zeroIdReplied comments"
      using r by (force simp: zeroIdReplied_def)
    with zero show False ..
  next
    case 2
    with r have "c_id p = c_id c" by simp
    moreover have "p \<in> set comments" "c \<in> set comments" using sub 2 by auto
    moreover have "inj_on c_id (set comments)" using ids by (simp add: distinct_map)
    ultimately have "p = c" by (auto dest: inj_onD)
    with 2 dist show False by simp
  qed
qed

lemma returns_on_path:
  assumes ids: "distinct (map c_id comments)" and zero: "\<not> zeroIdReplied comments"
  shows "replyPath (c # ancestors) \<Longrightarrow> distinct (c # ancestors) \<Longrightarrow>
         set (c # ancestors) \<subseteq> set comments \<Longrightarrow>
         length comments < fuel + length (c # ancestors) \<Longrightarrow>
         formatCommentWithReplies rt comments fuel c depth \<noteq> None"
proof (induction fuel arbitrary: c ancestors depth)
  case 0
  have "length (c # ancestors) = card (set (c # ancestors))"
    using "0.prems"(2) by (rule distinct_card [symmetric])
  also have "\<dots> \<le> card (set comments)"
    using "0.prems"(3) by (intro card_mono) simp_all
  also have "\<dots> \<le> length comments" by (rule card_length)
  finally show ?case using "0.prems"(4) by simp
next
  case (Suc fuel)
  have "formatCommentWithReplies rt comments fuel r (Suc depth) \<noteq> None"
    if "r \<in> set (getReplies comments (c_id c))" for r
  proof -
    from that have r: "r \<in> set comments" "c_in_reply_to_id r = Some (c_id c)"
      by (simp_all add: getReplies_def)
    from reply_not_on_path [OF Suc.prems(1-3) ids zero r]
    have fresh: "r \<notin> set (c # ancestors)" .
    show ?thesis
    proof (rule Suc.IH [of r "c # ancestors"])
      show "replyPath (r # c # ancestors)" using r Suc.prems(1) by simp
      show "distinct (r # c # ancestors)" using fresh Suc.prems(2) by simp
      show "set (r # c # ancestors) \<subseteq> set comments" using r Suc.prems(3) by simp
      show "length comments < fuel + length (r # c # ancestors)" using Suc.prems(4) by simp
    qed
  qed
  then have "those (map (\<lambda>reply. formatCommentWithReplies rt comments fuel reply (Suc depth))
                      (getReplies comments (c_id c))) \<noteq> None"
    by (intro those_not_None) auto
  then show ?case
    by (simp only: formatCommentWithReplies_Suc) simp
qed

lemma root_returns:
  assumes "distinct (map c_id comments)" and "\<not> zeroIdReplied comments"
    and "c \<in> set (rootComments comments)" and "length comments \<le> fuel"
  shows "formatCommentWithReplies rt comments fuel c depth \<noteq> None"
  using assms(3,4)
  by (intro returns_on_path [OF assms(1,2), of c "[]"]) (simp_all add: rootComments_def)

lemma assembleThreads_returns:
  assumes "distinct (map c_id comments)" and "\<not> zeroIdReplied comments"
    and "set roots \<subseteq> set (rootComments comments)" and "length comments \<le> fuel"
  shows "assembleThreads comments fuel roots \<noteq> None"
  unfolding assembleThreads_def
proof (rule those_not_None)
  fix x assume "x \<in> set (map (assembleTree comments fuel) roots)"
  then obtain c where c: "c \<in> set roots" "x = assembleTree comments fuel c" by auto
  with assms(3) have "c \<in> set (rootComments comments)" by auto
  from root_returns [OF assms(1,2) this assms(4), of rt 0] c
  show "x \<noteq> None" by (simp add: format_renders_tree)
qed

lemma foldl_keeps_Some:
  "(\<And>md x. md \<noteq> None \<Longrightarrow> x \<in> set xs \<Longrightarrow> f md x \<noteq> None) \<Longrightarrow> acc \<noteq> None \<Longrightarrow>
   foldl f acc xs \<noteq> None"
  by (induction xs arbitrary: acc) simp_all

lemma appendOpt_not_None: "a \<noteq> None \<Longrightarrow> b \<noteq> None \<Longrightarrow> appendOpt a b \<noteq> None"
  by (cases a; cases b) simp_all

lemma groupedDocument_returns:
  assumes "distinct (map c_id comments)" and "\<not> zeroIdReplied comments"
    and "length comments \<le> fuel"
  shows "loopDocument rt fuel reviews comments \<noteq> None"
proof -
  have each: "loopSection rt comments fuel item \<noteq> None" for item
    using assembleThreads_returns [OF assms(1,2) _ assms(3)]
    by (cases item) (simp add: loopSection_def Let_def)
  have "those (map (loopSection rt comments fuel) (enumerate 1 reviews)) \<noteq> None"
  proof (rule those_not_None)
    fix x assume "x \<in> set (map (loopSection rt comments fuel) (enumerate 1 reviews))"
    then obtain item where "x = loopSection rt comments fuel item" by auto
    with each show "x \<noteq> None" by simp
  qed
  moreover have "loopStandalone rt comments fuel \<noteq> None"
    using assembleThreads_returns [OF assms(1,2) _ assms(3)]
    by (simp add: loopStandalone_def)
  ultimately show ?thesis
    by (simp add: loopDocument_def appendOpt_not_None)
qed

lemma threadedOnly_returns:
  assumes "distinct (map c_id comments)" and "\<not> zeroIdReplied comments"
    and "length comments \<le> fuel"
  shows "threadedOnly rt fuel comments markdown \<noteq> None"
  unfolding threadedOnly_def Let_def
proof (rule foldl_keeps_Some)
  fix md :: "string option" and x :: "nat \<times> PullRequestReviewComment"
  assume md: "md \<noteq> None" and x: "x \<in> set (enumerate 0 (rootComments comments))"
  obtain index c where [simp]: "x = (index, c)" by (cases x)
  from x have "c \<in> set (rootComments comments)" by (auto simp: in_set_enumerate_eq)
  from root_returns [OF assms(1,2) this assms(3), of rt 0] md
  show "(case x of (index, comment) \<Rightarrow>
           appendOpt (appendOpt md (formatCommentWithReplies rt comments fuel comment 0))
             (Some (if Suc index < length (rootComments comments) then ''---\<newline>\<newline>'' else [])))
        \<noteq> None"
    by (simp add: appendOpt_not_None)
qed simp

text \<open>
  C9, as amended. For a comment list whose ids are pairwise distinct and in which
  0 is not both the id of a comment and the target of a reply, the renderer
  returns in every mode as soon as the fuel is at least the number of comments:
  on a path of replies below a root no comment occurs twice, so no path is longer
  than the list.
\<close>

theorem threaded_rendering_returns:
  assumes "distinct (map c_id comments)" and "\<not> zeroIdReplied comments"
    and "length comments \<le> fuel"
  shows "\<exists>markdown. formatCommentsWithReviews rt fuel owner repo prId reviews comments options
           = Some markdown"
proof -
  have "appendOpt (Some (reviewsHeader rt owner repo prId reviews comments))
          (loopDocument rt fuel reviews comments) \<noteq> None"
    using groupedDocument_returns [OF assms] by (intro appendOpt_not_None) simp_all
  moreover have "threadedOnly rt fuel comments
                   (reviewsHeader rt owner repo prId reviews comments) \<noteq> None"
    by (rule threadedOnly_returns [OF assms])
  ultimately
  have "formatCommentsWithReviews rt fuel owner repo prId reviews comments options \<noteq> None"
    by (simp add: formatCommentsWithReviews_def Let_def threadedWithReviews_document)
  then show ?thesis by blast
qed

theorem threaded_rendering_returns_witness:
  "distinct (map c_id [exampleComment 1 None None ''Why a loop?'',
                       exampleComment 2 (Some 1) None ''It reads better.''])
   \<and> \<not> zeroIdReplied [exampleComment 1 None None ''Why a loop?'',
                       exampleComment 2 (Some 1) None ''It reads better.'']
   \<and> (\<exists>markdown. formatCommentsWithReviews exampleRuntime 2 ''o'' ''r'' 1 []
          [exampleComment 1 None None ''Why a loop?'',
           exampleComment 2 (Some 1) None ''It reads better.''] threadingOnly = Some markdown)"
proof -
  let ?cs = "[exampleComment 1 None None ''Why a loop?'',
              exampleComment 2 (Some 1) None ''It reads better.'']"
  have a: "distinct (map c_id ?cs)" by (simp add: exampleComment_def)
  have b: "\<not> zeroIdReplied ?cs" by (simp add: zeroIdReplied_def exampleComment_def)
  have c: "length ?cs \<le> 2" by simp
  from threaded_rendering_returns [OF a b c] a b show ?thesis by blast
qed

lemma map_Some_transfer:
  "map f xs = map Some ys \<Longrightarrow> (\<And>x y. f x = Some y \<Longrightarrow> g x = Some y) \<Longrightarrow>
   map g xs = map Some ys"
  by (induction xs arbitrary: ys) auto

lemma those_map_Some: "those (map Some ys) = Some ys"
  by (induction ys) simp_all

text \<open>Fuel beyond what a call needs does not change its result.\<close>

lemma more_fuel_same_result:
  "formatCommentWithReplies rt comments fuel c depth = Some out \<Longrightarrow>
   formatCommentWithReplies rt comments (Suc fuel) c depth = Some out"
proof (induction fuel arbitrary: c depth out)
  case 0
  then show ?case by simp
next
  case (Suc fuel)
  from Suc.prems obtain texts where
    texts: "those (map (\<lambda>reply. formatCommentWithReplies rt comments fuel reply (Suc depth))
                     (getReplies comments (c_id c))) = Some texts"
    and out: "out = commentBlock rt c depth @ concat texts"
    by (auto simp only: formatCommentWithReplies_Suc map_option_eq_Some)
  from those_eq_Some_map [OF texts]
  have "map (\<lambda>reply. formatCommentWithReplies rt comments fuel reply (Suc depth))
          (getReplies comments (c_id c)) = map Some texts" .
  then have "map (\<lambda>reply. formatCommentWithReplies rt comments (Suc fuel) reply (Suc depth))
          (getReplies comments (c_id c)) = map Some texts"
    by (rule map_Some_transfer) (rule Suc.IH)
  then show ?case
    using out by (simp only: formatCommentWithReplies_Suc [of _ _ "Suc fuel"] those_map_Some) simp
qed

text \<open>Without the condition on 0 the claim fails: a single comment with id 0
  whose \<^verbatim>\<open>in_reply_to_id\<close> is 0 is a root, since 0 is falsy, and its own reply;
  its rendering does not return, whatever the fuel.\<close>

lemma self_reply_never_returns:
  "formatCommentWithReplies rt [exampleComment 0 (Some 0) None text] fuel
     (exampleComment 0 (Some 0) None text) depth = None"
  by (induction fuel arbitrary: depth) (simp_all add: getReplies_def exampleComment_def)

theorem reply_to_comment_zero_never_returns:
  "distinct (map c_id [exampleComment 0 (Some 0) None ''Loop'']) \<and>
   (\<forall>fuel. formatCommentsWithReviews exampleRuntime fuel ''o'' ''r'' 1 []
              [exampleComment 0 (Some 0) None ''Loop''] threadingOnly = None)"
proof -
  have "rootComments [exampleComment 0 (Some 0) None ''Loop''] =
          [exampleComment 0 (Some 0) None ''Loop'']"
    by (simp add: rootComments_def truthyNum_def exampleComment_def)
  then show ?thesis
    by (simp add: formatCommentsWithReviews_def threadingOnly_def threadedOnly_def
        self_reply_never_returns)
qed

section \<open>Roots of a review that was not supplied\<close>

lemma replies_without:
  assumes "c_in_reply_to_id c \<noteq> Some i"
  shows "filter (\<lambda>reply. c_in_reply_to_id reply = Some i) (removeAll c comments) =
         filter (\<lambda>reply. c_in_reply_to_id reply = Some i) comments"
  using assms by (induction comments) auto

lemma assembleTree_without:
  assumes "\<forall>p \<in> set comments. c_in_reply_to_id c \<noteq> Some (c_id p)"
  shows "p \<in> set comments \<Longrightarrow>
         assembleTree (removeAll c comments) fuel p = assembleTree comments fuel p"
proof (induction fuel arbitrary: p)
  case 0
  then show ?case by simp
next
  case (Suc fuel)
  let ?replies = "filter (\<lambda>reply. c_in_reply_to_id reply = Some (c_id p)) comments"
  from assms Suc.prems have "c_in_reply_to_id c \<noteq> Some (c_id p)" by blast
  then have same: "filter (\<lambda>reply. c_in_reply_to_id reply = Some (c_id p)) (removeAll c comments)
                   = ?replies"
    by (rule replies_without)
  have "map (assembleTree (removeAll c comments) fuel) ?replies =
        map (assembleTree comments fuel) ?replies"
    by (rule map_cong [OF refl]) (simp add: Suc.IH)
  then show ?case
    by (simp only: assembleTree.simps same)
qed

lemma assembleThreads_without:
  assumes "\<forall>p \<in> set comments. c_in_reply_to_id c \<noteq> Some (c_id p)"
    and "set roots \<subseteq> set comments"
  shows "assembleThreads (removeAll c comments) fuel roots = assembleThreads comments fuel roots"
proof -
  have "map (assembleTree (removeAll c comments) fuel) roots =
        map (assembleTree comments fuel) roots"
    using assms(2) by (intro map_cong [OF refl] assembleTree_without [OF assms(1)]) auto
  then show ?thesis by (simp only: assembleThreads_def)
qed

lemma group_without:
  assumes "c_pull_request_review_id c \<noteq> k"
  shows "filter (\<lambda>x. c_pull_request_review_id x = k) (rootComments (removeAll c comments)) =
         filter (\<lambda>x. c_pull_request_review_id x = k) (rootComments comments)"
  using assms unfolding rootComments_def by (induction comments) auto

lemma group_subset:
  "set (filter (\<lambda>x. c_pull_request_review_id x = k) (rootComments comments)) \<subseteq> set comments"
  by (auto simp: rootComments_def)

lemma groupedDocument_without:
  assumes noparent: "\<forall>p \<in> set comments. c_in_reply_to_id c \<noteq> Some (c_id p)"
    and rid: "c_pull_request_review_id c = Some rid" "rid \<notin> r_id ` set reviews"
  shows "loopDocument rt fuel reviews (removeAll c comments) =
         loopDocument rt fuel reviews comments"
proof -
  have "loopSection rt (removeAll c comments) fuel item = loopSection rt comments fuel item"
    if "item \<in> set (enumerate 1 reviews)" for item
  proof -
    obtain number review where item: "item = (number, review)" by (cases item)
    with that have "review \<in> set reviews" by (auto simp: in_set_enumerate_eq)
    with rid have "c_pull_request_review_id c \<noteq> Some (r_id review)" by auto
    from group_without [OF this, of comments]
      assembleThreads_without [OF noparent group_subset [of "Some (r_id review)" comments],
        where fuel = fuel]
    show ?thesis by (simp add: loopSection_def item)
  qed
  then have "map (loopSection rt (removeAll c comments) fuel) (enumerate 1 reviews) =
             map (loopSection rt comments fuel) (enumerate 1 reviews)"
    by (intro map_cong [OF refl])
  moreover
  from rid have "c_pull_request_review_id c \<noteq> None" by simp
  from group_without [OF this, of comments]
    assembleThreads_without [OF noparent group_subset [of None comments], where fuel = fuel]
  have "loopStandalone rt (removeAll c comments) fuel = loopStandalone rt comments fuel"
    by (simp add: loopStandalone_def)
  ultimately show ?thesis by (simp only: loopDocument_def)
qed

text \<open>
  C10. With \<^verbatim>\<open>includeReviews\<close> and \<^verbatim>\<open>showThreading\<close> both set and at least one
  review, a root comment (one of \<^verbatim>\<open>rootComments\<close>, with no parent in the input)
  whose review id is not null and is the id of no supplied review is left out:
  after the header, which still counts it, the document is the one rendered for
  the input without that comment.
\<close>

theorem root_of_unknown_review_is_omitted:
  assumes "includeReviews options" and "showThreading options" and "reviews \<noteq> []"
    and "c \<in> set (rootComments comments)"
    and "\<forall>p \<in> set comments. c_in_reply_to_id c \<noteq> Some (c_id p)"
    and "c_pull_request_review_id c = Some rid" and "rid \<notin> r_id ` set reviews"
  shows "formatCommentsWithReviews rt fuel owner repo prId reviews comments options =
           threadedWithReviews rt fuel reviews (removeAll c comments)
             (reviewsHeader rt owner repo prId reviews comments)"
  using assms(1-3) groupedDocument_without [OF assms(5-7)]
  by (simp add: formatCommentsWithReviews_def threadedWithReviews_document)

theorem root_of_unknown_review_witness:
  "exampleComment 4 None (Some 6) ''Unrelated.''
     \<in> set (rootComments [exampleComment 1 None None ''Why a loop?'',
                          exampleComment 4 None (Some 6) ''Unrelated.''])
   \<and> formatCommentsWithReviews exampleRuntime 2 ''o'' ''r'' 1 [exampleReview 5]
       [exampleComment 1 None None ''Why a loop?'',
        exampleComment 4 None (Some 6) ''Unrelated.''] threadingAndReviews =
     threadedWithReviews exampleRuntime 2 [exampleReview 5]
       [exampleComment 1 None None ''Why a loop?'']
       (reviewsHeader exampleRuntime ''o'' ''r'' 1 [exampleReview 5]
          [exampleComment 1 None None ''Why a loop?'',
           exampleComment 4 None (Some 6) ''Unrelated.''])"
proof -
  let ?c = "exampleComment 4 None (Some 6) ''Unrelated.''"
  let ?cs = "[exampleComment 1 None None ''Why a loop?'', ?c]"
  have 1: "includeReviews threadingAndReviews" "showThreading threadingAndReviews"
    "[exampleReview 5] \<noteq> []"
    by (simp_all add: threadingAndReviews_def)
  have 2: "?c \<in> set (rootComments ?cs)"
    by (simp add: rootComments_def truthyNum_def exampleComment_def)
  have 3: "\<forall>p \<in> set ?cs. c_in_reply_to_id ?c \<noteq> Some (c_id p)"
    by (simp add: exampleComment_def)
  have 4: "c_pull_request_review_id ?c = Some 6" "6 \<notin> r_id ` set [exampleReview 5]"
    by (simp_all add: exampleComment_def exampleReview_def)
  have 5: "removeAll ?c ?cs = [exampleComment 1 None None ''Why a loop?'']"
    by (simp add: exampleComment_def)
  from root_of_unknown_review_is_omitted [OF 1 2 3 4, of exampleRuntime 2 "''o''" "''r''" 1] 2
  show ?thesis by (simp only: 5)
qed

section \<open>Replies whose parent is not in the input\<close>

lemma reply_is_no_root:
  "truthyNum (c_in_reply_to_id c) \<Longrightarrow> c \<notin> set (rootComments comments)"
  by (simp add: rootComments_def)

lemma parentless_is_no_reply:
  "\<forall>p \<in> set comments. c_in_reply_to_id c \<noteq> Some (c_id p) \<Longrightarrow> p \<in> set comments \<Longrightarrow>
   c \<notin> set (getReplies comments (c_id p))"
  by (simp add: getReplies_def)

text \<open>
  C2, on the code. A comment whose \<^verbatim>\<open>in_reply_to_id\<close> names an id that no comment
  of the input has is not a root of the renderer: it is not in \<^verbatim>\<open>rootComments\<close>,
  and with threading on the renderer returns the header alone, which counts the
  comment, and no section for it.
\<close>

theorem unresolved_reply_is_dropped:
  "rootComments [exampleComment 2 (Some 999) None ''Orphan''] = []
   \<and> formatCommentsWithReviews exampleRuntime fuel ''o'' ''r'' 1 []
       [exampleComment 2 (Some 999) None ''Orphan''] threadingOnly =
     Some (reviewsHeader exampleRuntime ''o'' ''r'' 1 []
             [exampleComment 2 (Some 999) None ''Orphan''])"
proof -
  have roots: "rootComments [exampleComment 2 (Some 999) None ''Orphan''] = []"
    by (simp add: rootComments_def truthyNum_def exampleComment_def)
  then show ?thesis
    by (simp add: formatCommentsWithReviews_def threadingOnly_def threadedOnly_def)
qed

section \<open>One request per fetch\<close>

lemma fetch_requests_once:
  "snd (fetchPullRequestComments up owner repo n token) = [commentsUrl owner repo n]"
  "snd (fetchPullRequestReviews up owner repo n token) = [reviewsUrl owner repo n]"
  "snd (fetchIssueComments up owner repo n token) = [issueCommentsUrl owner repo n]"
  by (simp_all add: fetchPullRequestComments_def fetchPullRequestReviews_def
      fetchIssueComments_def Let_def)

lemma pagedList_first:
  "decodeResponse (pagedList item base base token) = Inr (map item [1..<101])"
  by (simp add: pagedList_def decodeResponse_def okResponse_def)

text \<open>
  C3, on the code. Against an upstream that serves 200 items in two pages of 100,
  the first naming the second in its \<^verbatim>\<open>Link\<close> header, each of the three list
  fetches requests the first URL only and returns the 100 items of the first page.
\<close>

theorem fetch_returns_first_page_only:
  "fetchIssueComments pagedUpstream ''owner'' ''repo'' 123 ''test'' =
     (Inr (map exampleIssueComment [1..<101]), [issueCommentsUrl ''owner'' ''repo'' 123])
   \<and> fetchPullRequestComments pagedUpstream ''owner'' ''repo'' 123 ''test'' =
     (Inr (map (\<lambda>n. exampleComment (int n) None None ''Comment body'') [1..<101]),
      [commentsUrl ''owner'' ''repo'' 123])
   \<and> fetchPullRequestReviews pagedUpstream ''owner'' ''repo'' 123 ''test'' =
     (Inr (map (\<lambda>n. exampleReview (int n)) [1..<101]), [reviewsUrl ''owner'' ''repo'' 123])
   \<and> length (map exampleIssueComment [1..<101]) = 100"
  by (simp add: fetchIssueComments_def fetchPullRequestComments_def fetchPullRequestReviews_def
      pagedUpstream_def pagedList_first)

section \<open>The ordinal filter\<close>

lemma parseInt_examples:
  "parseInt ''1'' = Some 1" "parseInt ''2'' = Some 2" "parseInt ''0'' = Some 0"
  "parseInt ''-1'' = Some (- 1)" "parseInt ''abc'' = None" "parseInt [] = None"
  "parseInt ''12abc'' = Some 12"
  by (simp_all add: parseInt_def leadingWhiteSpace_def whiteSpace_def isDigit_def
      digitsValue_def toNumber_def roundNat_def)

lemma parseInt_empty: "parseInt s = Some n \<Longrightarrow> s \<noteq> []"
  by (auto simp: parseInt_def)

text \<open>The handler after its checks of the parameters and of the token, in the
  simple mode and in the mode that fetches the reviews.\<close>

lemma handler_simple_mode:
  assumes "owner \<noteq> []" "repo \<noteq> []" "parseInt pullRequestId = Some prId" "token \<noteq> []"
    and "parseInt k = Some n"
    and "\<not> includeReviews options" "\<not> showThreading options"
    and "fetchPullRequestComments up owner repo prId token = (Inr comments, calls)"
  shows "handlePRComments rt up fuel owner repo pullRequestId (Some k) token options =
           (if n < 1 \<or> n > int (length comments)
            then (send 404 (commentNotFound n prId (length comments)), calls)
            else (send 200 (formatCommentsAsMarkdown rt owner repo prId [comments ! nat (n - 1)]),
                  calls))"
proof -
  from assms(3,5) have "pullRequestId \<noteq> []" "k \<noteq> []" by (auto dest: parseInt_empty)
  with assms show ?thesis by (simp add: handlePRComments_def)
qed

lemma handler_review_mode:
  assumes "owner \<noteq> []" "repo \<noteq> []" "parseInt pullRequestId = Some prId" "token \<noteq> []"
    and "parseInt k = Some n"
    and "includeReviews options \<or> showThreading options"
    and "getPullRequestReviewsAndComments up owner repo prId token =
           (Inr (reviews, comments), calls)"
  shows "handlePRComments rt up fuel owner repo pullRequestId (Some k) token options =
           (if n < 1 \<or> n > int (length comments)
            then (send 404 (commentNotFound n prId (length comments)), calls)
            else (case formatCommentsWithReviews rt fuel owner repo prId reviews
                         [comments ! nat (n - 1)] options of
                    None \<Rightarrow> (send 500 (fetchFailed stackOverflow), calls)
                  | Some markdown \<Rightarrow> (send 200 markdown, calls)))"
proof -
  from assms(3,5) have "pullRequestId \<noteq> []" "k \<noteq> []" by (auto dest: parseInt_empty)
  with assms show ?thesis by (simp add: handlePRComments_def)
qed

lemma threadUpstream_fetch:
  "getPullRequestReviewsAndComments threadUpstream ''o'' ''r'' 1 ''secret'' =
     (Inr ([], [exampleComment 1 None None ''Why a loop?'',
                exampleComment 2 (Some 1) None ''It reads better.'']),
      [reviewsUrl ''o'' ''r'' 1, commentsUrl ''o'' ''r'' 1])"
  by (simp add: getPullRequestReviewsAndComments_def fetchPullRequestReviews_def
      fetchPullRequestComments_def threadUpstream_def decodeResponse_def okResponse_def)

text \<open>
  C4, on the code. With threading on, the request for ordinal 2 of the fetched
  sequence (a root, then a reply to it) succeeds with status 200, and the document
  is the header alone: the selected comment, a reply whose parent is no longer in
  the list given to the renderer, is not rendered.
\<close>

theorem selected_reply_is_not_rendered:
  "handlePRComments exampleRuntime threadUpstream fuel ''o'' ''r'' ''1'' (Some ''2'') ''secret''
     threadingOnly =
   (send 200 (reviewsHeader exampleRuntime ''o'' ''r'' 1 []
                [exampleComment 2 (Some 1) None ''It reads better.'']),
    [reviewsUrl ''o'' ''r'' 1, commentsUrl ''o'' ''r'' 1])"
proof -
  have roots: "rootComments [exampleComment 2 (Some 1) None ''It reads better.''] = []"
    by (simp add: rootComments_def truthyNum_def exampleComment_def)
  have "formatCommentsWithReviews exampleRuntime fuel ''o'' ''r'' 1 []
          [exampleComment 2 (Some 1) None ''It reads better.''] threadingOnly =
        Some (reviewsHeader exampleRuntime ''o'' ''r'' 1 []
                [exampleComment 2 (Some 1) None ''It reads better.''])"
    by (simp add: formatCommentsWithReviews_def threadingOnly_def threadedOnly_def roots)
  moreover have "showThreading threadingOnly" by (simp add: threadingOnly_def)
  ultimately show ?thesis
    using handler_review_mode [of "''o''" "''r''" "''1''" 1 "''secret''" "''2''" 2 threadingOnly
        threadUpstream "[]" _ _ exampleRuntime fuel, OF _ _ _ _ _ _ threadUpstream_fetch]
    by (simp add: parseInt_examples)
qed

text \<open>A pull request that the upstream does not know is answered 500, not the
  404 of an ordinal out of range.\<close>

lemma upstream_not_found_is_500:
  assumes "owner \<noteq> []" "repo \<noteq> []" "parseInt pullRequestId = Some prId" "token \<noteq> []"
    and "\<not> includeReviews options" "\<not> showThreading options"
    and "fetchCommentList up (commentsUrl owner repo prId) token = Inr (notFoundResponse [])"
  shows "status (fst (handlePRComments rt up fuel owner repo pullRequestId None token
                        options)) = 500"
proof -
  from assms(3) have "pullRequestId \<noteq> []" by (rule parseInt_empty)
  moreover have "fetchPullRequestComments up owner repo prId token =
      (Inl (Error (''GitHub API request failed: '' @ natToString 404 @ '' '' @ ''Not Found''
                   @ ''\<newline>'' @ ''Not Found'')), [commentsUrl owner repo prId])"
    using assms(7)
    by (simp add: fetchPullRequestComments_def decodeResponse_def notFoundResponse_def Let_def)
  ultimately show ?thesis
    using assms(1-6) by (simp add: handlePRComments_def send_def)
qed

text \<open>White space of the language beyond ASCII is trimmed as well, and an integer
  of more than 53 bits is rounded to the nearest \<^verbatim>\<open>Number\<close>.\<close>

lemma parseInt_trims_unicode:
  "parseInt [CHR 0xC2, CHR 0xA0, CHR ''1'', CHR ''2''] = Some 12"
  "parseInt [CHR 0xEF, CHR 0xBB, CHR 0xBF, CHR 0xE2, CHR 0x80, CHR 0xA8, CHR '' '', CHR ''-'',
             CHR ''7'', CHR ''x''] = Some (- 7)"
  by (simp_all add: parseInt_def leadingWhiteSpace_def whiteSpace_def isDigit_def
      digitsValue_def toNumber_def roundNat_def)

lemma bitLength_numeral:
  "bitLength (numeral k) = Suc (bitLength (numeral k div 2))"
  by (subst bitLength.simps) simp

lemma roundNat_example: "roundNat 9007199254740993 = 9007199254740992"
  by (simp add: roundNat_def infinity_def Let_def bitLength_numeral)

lemma parseInt_rounds: "parseInt ''9007199254740993'' = Some 9007199254740992"
  by (simp add: parseInt_def leadingWhiteSpace_def whiteSpace_def isDigit_def
      digitsValue_def toNumber_def roundNat_example)

section \<open>Validation and authentication\<close>

lemma invalid_id_is_400:
  assumes "parseInt pullRequestId = None"
  shows "status (fst (handlePRComments rt up fuel owner repo pullRequestId commentNumber token
                        options)) = 400
         \<and> snd (handlePRComments rt up fuel owner repo pullRequestId commentNumber token
                   options) = []"
  using assms by (simp add: handlePRComments_def send_def)

lemma missing_token_is_401:
  assumes "owner \<noteq> []" "repo \<noteq> []" "parseInt pullRequestId \<noteq> None"
    and "case commentNumber of None \<Rightarrow> True | Some k \<Rightarrow> k = [] \<or> parseInt k \<noteq> None"
  shows "handlePRComments rt up fuel owner repo pullRequestId commentNumber [] options =
           (send 401 missingToken, [])"
proof -
  from assms(3) obtain prId where prId: "parseInt pullRequestId = Some prId" by blast
  then have nonempty: "pullRequestId \<noteq> []" by (rule parseInt_empty)
  show ?thesis
  proof (cases commentNumber)
    case None
    with assms(1,2) prId nonempty show ?thesis
      by (simp add: handlePRComments_def)
  next
    case (Some k)
    show ?thesis
    proof (cases "k = []")
      case True
      with Some assms(1,2) prId nonempty show ?thesis
        by (simp add: handlePRComments_def)
    next
      case False
      with Some assms(4) obtain n where "parseInt k = Some n" by auto
      with False Some assms(1,2) prId nonempty show ?thesis
        by (simp add: handlePRComments_def)
    qed
  qed
qed

text \<open>
  C6, as amended. When owner and repo are not empty, the id parses as an integer
  and the comment number, if given, parses too, a request with an empty token is
  answered 401 and nothing is requested from the upstream. When the id does not
  parse, the answer is 400 and nothing is requested, with or without a token: the
  parameters are validated before the token is looked at.
\<close>

theorem validation_precedes_authentication:
  "(owner \<noteq> [] \<and> repo \<noteq> [] \<and> parseInt pullRequestId \<noteq> None
      \<and> (case commentNumber of None \<Rightarrow> True | Some k \<Rightarrow> k = [] \<or> parseInt k \<noteq> None) \<longrightarrow>
      handlePRComments rt up fuel owner repo pullRequestId commentNumber [] options =
        (send 401 missingToken, []))
   \<and> (parseInt pullRequestId = None \<longrightarrow>
        status (fst (handlePRComments rt up fuel owner repo pullRequestId commentNumber token
                       options)) = 400
        \<and> snd (handlePRComments rt up fuel owner repo pullRequestId commentNumber token
                  options) = [])"
proof (intro conjI impI)
  assume "owner \<noteq> [] \<and> repo \<noteq> [] \<and> parseInt pullRequestId \<noteq> None
      \<and> (case commentNumber of None \<Rightarrow> True | Some k \<Rightarrow> k = [] \<or> parseInt k \<noteq> None)"
  then show "handlePRComments rt up fuel owner repo pullRequestId commentNumber [] options =
        (send 401 missingToken, [])"
    by (intro missing_token_is_401) simp_all
next
  assume invalid: "parseInt pullRequestId = None"
  from invalid_id_is_400 [OF invalid]
  show "status (fst (handlePRComments rt up fuel owner repo pullRequestId commentNumber token
                       options)) = 400"
    by (rule conjunct1)
  from invalid_id_is_400 [OF invalid]
  show "snd (handlePRComments rt up fuel owner repo pullRequestId commentNumber token
                  options) = []"
    by (rule conjunct2)
qed

theorem validation_precedes_authentication_witness:
  "handlePRComments exampleRuntime threadUpstream 5 ''o'' ''r'' ''1'' None [] threadingOnly =
     (send 401 missingToken, [])
   \<and> handlePRComments exampleRuntime threadUpstream 5 ''o'' ''r''
       [CHR 0xC2, CHR 0xA0, CHR ''1'', CHR ''2''] None [] threadingOnly =
     (send 401 missingToken, [])
   \<and> status (fst (handlePRComments exampleRuntime threadUpstream 5 ''o'' ''r'' ''abc'' None
                    ''secret'' threadingOnly)) = 400
   \<and> snd (handlePRComments exampleRuntime threadUpstream 5 ''o'' ''r'' ''abc'' None
             ''secret'' threadingOnly) = []"
  using validation_precedes_authentication
    [where owner = "''o''" and repo = "''r''" and pullRequestId = "''1''"
       and commentNumber = None and rt = exampleRuntime and up = threadUpstream and fuel = 5
       and options = threadingOnly]
    validation_precedes_authentication
    [where owner = "''o''" and repo = "''r''" and pullRequestId = "[CHR 0xC2, CHR 0xA0, CHR ''1'', CHR ''2'']"
       and commentNumber = None and rt = exampleRuntime and up = threadUpstream and fuel = 5
       and options = threadingOnly]
    validation_precedes_authentication
    [where owner = "''o''" and repo = "''r''" and pullRequestId = "''abc''"
       and commentNumber = None and rt = exampleRuntime and up = threadUpstream and fuel = 5
       and options = threadingOnly and token = "''secret''"]
  by (simp add: parseInt_examples parseInt_trims_unicode)

text \<open>A request with an empty token and an id that is not a number is answered
  400, not 401.\<close>

theorem invalid_id_without_token_is_400:
  "status (fst (handlePRComments exampleRuntime threadUpstream 5 ''o'' ''r'' ''abc'' None []
                  threadingOnly)) = 400"
  by (simp add: handlePRComments_def parseInt_examples send_def)

text \<open>\<^verbatim>\<open>parseInt\<close> reads the leading digits of \<^verbatim>\<open>12abc\<close>: the id passes the
  validation as 12 and the comments of pull request 12 are requested.\<close>

lemma lenient_id_is_accepted:
  "handlePRComments exampleRuntime threadUpstream 5 ''o'' ''r'' ''12abc'' None ''secret''
     \<lparr>includeReviews = False, showThreading = False, resolvedFilter = None\<rparr> =
   (send 200 (formatCommentsAsMarkdown exampleRuntime ''o'' ''r'' 12
                [exampleComment 1 None None ''Why a loop?'',
                 exampleComment 2 (Some 1) None ''It reads better.'']),
    [commentsUrl ''o'' ''r'' 12])"
  by (simp add: handlePRComments_def parseInt_examples fetchPullRequestComments_def
      threadUpstream_def decodeResponse_def okResponse_def)

section \<open>Token totals of the three renderers\<close>














section \<open>The code against the grouped document\<close>










end
